theory Spec2Isabelle
  imports Main
begin

section \<open>Values exchanged with the client\<close>

text \<open>
  Every route of \<^verbatim>\<open>server.js\<close> answers with \<^verbatim>\<open>res.status(n).json(v)\<close>
  (status 200 when \<^verbatim>\<open>status\<close> is not called).  An exception thrown inside a
  database callback is caught by nobody: the process dies and the request is never
  answered.  Both ends of a request are values of \<open>outcome\<close>.
\<close>

datatype json = JNull | JNum int | JStr string | JArr "json list" | JObj "(string \<times> json) list"

datatype outcome = Response nat json | Crash string

text \<open>
  A field of \<^verbatim>\<open>req.body\<close> or \<^verbatim>\<open>req.query\<close> is absent (\<^verbatim>\<open>undefined\<close>) or a
  string.  \<^verbatim>\<open>!x\<close> holds for \<^verbatim>\<open>undefined\<close>, \<^verbatim>\<open>null\<close> and the empty string.  A column
  value is \<^verbatim>\<open>NULL\<close> or a string; the driver sends \<^verbatim>\<open>undefined\<close> as \<^verbatim>\<open>NULL\<close>.
\<close>

type_synonym field = "string option"

definition falsy :: "field \<Rightarrow> bool" where
  "falsy x = (case x of None \<Rightarrow> True | Some s \<Rightarrow> s = [])"

definition jfield :: "field \<Rightarrow> json" where
  "jfield x = (case x of None \<Rightarrow> JNull | Some s \<Rightarrow> JStr s)"

text \<open>\<^verbatim>\<open>JSON.stringify\<close> leaves out the properties whose value is \<^verbatim>\<open>undefined\<close>.\<close>

fun props :: "(string \<times> json option) list \<Rightarrow> (string \<times> json) list" where
  "props [] = []"
| "props ((k, None) # kvs) = props kvs"
| "props ((k, Some v) # kvs) = (k, v) # props kvs"

definition body_prop :: "field \<Rightarrow> json option" where
  "body_prop x = map_option JStr x"

text \<open>
  \<^verbatim>\<open>req.body\<close> and \<^verbatim>\<open>req.query\<close> are objects with string properties; a row is an
  object with one property for each column.  Both are lists of pairs, read with
  \<open>map_of\<close> and \<open>col\<close>.
\<close>

type_synonym body = "(string \<times> string) list"

type_synonym row = "(string \<times> field) list"

definition col :: "row \<Rightarrow> string \<Rightarrow> field" where
  "col r k = (case map_of r k of None \<Rightarrow> None | Some v \<Rightarrow> v)"

fun set_col :: "string \<Rightarrow> field \<Rightarrow> row \<Rightarrow> row" where
  "set_col k v [] = [(k, v)]"
| "set_col k v (c # r) = (if fst c = k then (k, v) # r else c # set_col k v r)"

definition set_cols :: "(string \<times> field) list \<Rightarrow> row \<Rightarrow> row" where
  "set_cols kvs r = fold (\<lambda>kv. set_col (fst kv) (snd kv)) kvs r"

definition row_json :: "nat \<times> row \<Rightarrow> json" where
  "row_json r = JObj ((''id'', JNum (int (fst r))) # map (\<lambda>c. (fst c, jfield (snd c))) (snd r))"

definition err_json :: "string \<Rightarrow> json" where
  "err_json m = JObj [(''error'', JStr m)]"

definition msg_json :: "string \<Rightarrow> json" where
  "msg_json m = JObj [(''message'', JStr m)]"

text \<open>The check mark that opens some messages, as its three bytes in UTF-8.\<close>

definition check_mark :: string where
  "check_mark = [CHR 0xE2, CHR 0x9C, CHR 0x85]"

section \<open>Paths, the file system and the upload middleware\<close>

text \<open>
  A path is the list of its segments from the root.  \<open>segments\<close> cuts a string at
  every \<^verbatim>\<open>/\<close>; \<open>norm_segs\<close> resolves \<^verbatim>\<open>.\<close> and \<^verbatim>\<open>..\<close> as \<^verbatim>\<open>path.join\<close> and
  the kernel do.
\<close>

type_synonym path = "string list"

fun split_slash :: "string \<Rightarrow> string list" where
  "split_slash [] = [[]]"
| "split_slash (c # cs) =
     (if c = CHR ''/'' then [] # split_slash cs
      else (case split_slash cs of [] \<Rightarrow> [[c]] | s # ss \<Rightarrow> (c # s) # ss))"

definition segments :: "string \<Rightarrow> string list" where
  "segments p = filter (\<lambda>s. s \<noteq> []) (split_slash p)"

fun norm_segs :: "string list \<Rightarrow> string list \<Rightarrow> path" where
  "norm_segs acc [] = rev acc"
| "norm_segs acc (s # ss) =
     (if s = ''.'' then norm_segs acc ss
      else if s = ''..'' then norm_segs (tl acc) ss
      else norm_segs (s # acc) ss)"

definition path_join :: "path \<Rightarrow> string list \<Rightarrow> path" where
  "path_join base parts = norm_segs (rev base) (concat (map segments parts))"

definition resolve :: "path \<Rightarrow> string \<Rightarrow> path" where
  "resolve cwd p =
     (case p of
        [] \<Rightarrow> cwd
      | c # _ \<Rightarrow> if c = CHR ''/'' then norm_segs [] (segments p)
                 else norm_segs (rev cwd) (segments p))"

definition path_basename :: "string \<Rightarrow> string" where
  "path_basename p = (case rev (segments p) of [] \<Rightarrow> [] | b # _ \<Rightarrow> b)"

definition path_extname :: "string \<Rightarrow> string" where
  "path_extname p =
     (let b = path_basename p;
          after = rev (takeWhile (\<lambda>c. c \<noteq> CHR ''.'') (rev b));
          before = rev (tl (dropWhile (\<lambda>c. c \<noteq> CHR ''.'') (rev b)))
      in if CHR ''.'' \<in> set b
         then (if before = [] then [] else if b = ''..'' then [] else CHR ''.'' # after)
         else [])"

text \<open>\<^verbatim>\<open>Date.now() + ext\<close>: the clock in decimal, followed by the extension.\<close>

fun show_nat :: "nat \<Rightarrow> string" where
  "show_nat n =
     (if n < 10 then [''0123456789'' ! n]
      else show_nat (n div 10) @ [''0123456789'' ! (n mod 10)])"

declare show_nat.simps [simp del]

datatype node = File string | Dir

datatype fs_error = ENOENT | EISDIR

type_synonym filesystem = "path \<Rightarrow> node option"

definition unlink :: "path \<Rightarrow> filesystem \<Rightarrow> fs_error + filesystem" where
  "unlink p fs =
     (case fs p of
        None \<Rightarrow> Inl ENOENT
      | Some Dir \<Rightarrow> Inl EISDIR
      | Some (File _) \<Rightarrow> Inr (fs(p := None)))"

text \<open>
  The process: \<open>dirname\<close> is \<^verbatim>\<open>__dirname\<close>, \<open>cwd\<close> the working directory against
  which relative paths are resolved, \<open>port\<close> the text of \<^verbatim>\<open>PORT\<close>.
\<close>

record env =
  dirname :: path
  cwd :: path
  port :: string

text \<open>
  The state a route works on: the rows of its table with their primary keys, the
  next \<^verbatim>\<open>AUTO_INCREMENT\<close> value, the files on disk, and the outcomes of the
  statements still to be sent to the database (\<open>Some m\<close>: the statement fails and
  the callback receives the error \<open>m\<close>; the empty list: no statement fails).  An
  error of the driver has its \<^verbatim>\<open>message\<close>, which \<^verbatim>\<open>JSON.stringify\<close> does not see,
  and the enumerable properties that it does (\<^verbatim>\<open>code\<close>, \<^verbatim>\<open>errno\<close>, \<^verbatim>\<open>sqlState\<close>,
  \<^verbatim>\<open>sqlMessage\<close> and \<^verbatim>\<open>sql\<close> when the server refuses a statement).  Every route reads and writes one table, so a state holds one.
  The id of a route (\<^verbatim>\<open>req.params.id\<close>) is the number the database compares with
  the key.
\<close>

record db_error =
  err_message :: string
  err_props :: "(string \<times> json) list"

record world =
  rows :: "(nat \<times> row) list"
  auto_inc :: nat
  files :: filesystem
  db_faults :: "db_error option list"

definition next_fault :: "world \<Rightarrow> db_error option \<times> world" where
  "next_fault w =
     (case db_faults w of
        [] \<Rightarrow> (None, w)
      | f # fs \<Rightarrow> (f, w\<lparr>db_faults := fs\<rparr>))"

definition select_where_id :: "nat \<Rightarrow> (nat \<times> row) list \<Rightarrow> (nat \<times> row) list" where
  "select_where_id i rs = filter (\<lambda>r. fst r = i) rs"

definition delete_where_id :: "nat \<Rightarrow> (nat \<times> row) list \<Rightarrow> (nat \<times> row) list" where
  "delete_where_id i rs = filter (\<lambda>r. fst r \<noteq> i) rs"

definition update_where_id :: "nat \<Rightarrow> (row \<Rightarrow> row) \<Rightarrow> (nat \<times> row) list \<Rightarrow> (nat \<times> row) list" where
  "update_where_id i f rs = map (\<lambda>r. if fst r = i then (fst r, f (snd r)) else r) rs"

definition insert_row :: "row \<Rightarrow> world \<Rightarrow> world" where
  "insert_row r w = w\<lparr>rows := rows w @ [(auto_inc w, r)], auto_inc := Suc (auto_inc w)\<rparr>"

text \<open>\<^verbatim>\<open>ORDER BY id DESC LIMIT 1\<close>: the row with the greatest key.\<close>

fun max_id_row :: "(nat \<times> row) list \<Rightarrow> (nat \<times> row) option" where
  "max_id_row [] = None"
| "max_id_row (r # rs) =
     (case max_id_row rs of
        None \<Rightarrow> Some r
      | Some m \<Rightarrow> if fst r < fst m then Some m else Some r)"

text \<open>
  \<^verbatim>\<open>multer.diskStorage\<close> with destination \<^verbatim>\<open>"uploads/"\<close> and file name
  \<^verbatim>\<open>Date.now() + path.extname(file.originalname)\<close>.  \<^verbatim>\<open>upload.single(f)\<close> runs before the
  route's own function: when the request carries a file it is on disk, and
  \<^verbatim>\<open>req.file.filename\<close> is set, before the route looks at the request.
\<close>

record upfile =
  originalname :: string
  content :: string

definition multer_filename :: "nat \<Rightarrow> upfile \<Rightarrow> string" where
  "multer_filename now f = show_nat now @ path_extname (originalname f)"

definition upload_path :: "env \<Rightarrow> string \<Rightarrow> path" where
  "upload_path e filename = resolve (cwd e) (''uploads/'' @ filename)"

definition upload_single :: "env \<Rightarrow> nat \<Rightarrow> upfile option \<Rightarrow> world \<Rightarrow> string option \<times> world" where
  "upload_single e now file w =
     (case file of
        None \<Rightarrow> (None, w)
      | Some f \<Rightarrow>
          (Some (multer_filename now f),
           w\<lparr>files := (files w)(upload_path e (multer_filename now f) \<mapsto> File (content f))\<rparr>))"

section \<open>Banners: \<^verbatim>\<open>POST /api/banner\<close> and \<^verbatim>\<open>DELETE /api/banner/:id\<close>\<close>

definition post_api_banner ::
  "env \<Rightarrow> nat \<Rightarrow> body \<Rightarrow> upfile option \<Rightarrow> world \<Rightarrow> outcome \<times> world" where
  "post_api_banner e now req_body file w0 =
     (case upload_single e now file w0 of (filename, w1) \<Rightarrow>
      let text = map_of req_body ''text'';
          imageUrl = map_option (\<lambda>n. ''/uploads/'' @ n) filename in
      if falsy text \<or> falsy imageUrl
      then (Response 400 (err_json ''Text and image are required.''), w1)
      else
        (case next_fault w1 of
           (Some m, w2) \<Rightarrow> (Response 500 (err_json (err_message m)), w2)
         | (None, w2) \<Rightarrow>
             (Response 200
                (JObj [(''message'', JStr ''Banner saved successfully!''),
                       (''banner'', JObj [(''id'', JNum (int (auto_inc w2))),
                                          (''text'', jfield text),
                                          (''imageUrl'', jfield imageUrl)])]),
              insert_row [(''text'', text), (''image_url'', imageUrl)] w2)))"

text \<open>
  \<^verbatim>\<open>fs.unlink(imagePath, cb)\<close> is started and the answer is sent at once; the callback
  only writes a failure to the console.  \<^verbatim>\<open>path.join\<close> throws on \<^verbatim>\<open>null\<close>.
\<close>

definition delete_api_banner_id :: "env \<Rightarrow> nat \<Rightarrow> world \<Rightarrow> outcome \<times> world" where
  "delete_api_banner_id e i w0 =
     (case next_fault w0 of
        (Some m, w1) \<Rightarrow> (Response 500 (err_json (err_message m)), w1)
      | (None, w1) \<Rightarrow>
          (case select_where_id i (rows w1) of
             [] \<Rightarrow> (Response 404 (err_json ''Banner not found''), w1)
           | r # _ \<Rightarrow>
               (case col (snd r) ''image_url'' of
                  None \<Rightarrow> (Crash ''TypeError'', w1)
                | Some url \<Rightarrow>
                    let imagePath = path_join (dirname e) [''public'', url] in
                    (case next_fault w1 of
                       (Some m, w2) \<Rightarrow> (Response 500 (err_json (err_message m)), w2)
                     | (None, w2) \<Rightarrow>
                         let w3 = w2\<lparr>rows := delete_where_id i (rows w2)\<rparr>;
                             w4 = (case unlink imagePath (files w3) of
                                     Inl unlinkErr \<Rightarrow> w3
                                   | Inr fs \<Rightarrow> w3\<lparr>files := fs\<rparr>)
                         in (Response 200 (msg_json ''Banner deleted successfully!''), w4)))))"

section \<open>Students: \<^verbatim>\<open>POST /students\<close> and \<^verbatim>\<open>DELETE /students/:id\<close>\<close>

definition post_students ::
  "env \<Rightarrow> nat \<Rightarrow> body \<Rightarrow> upfile option \<Rightarrow> world \<Rightarrow> outcome \<times> world" where
  "post_students e now req_body file w0 =
     (case upload_single e now file w0 of (filename, w1) \<Rightarrow>
      let name = map_of req_body ''name'';
          achievement = map_of req_body ''achievement'';
          photoPath = map_option (\<lambda>n. ''/uploads/'' @ n) filename in
      if falsy name \<or> falsy achievement \<or> falsy photoPath
      then (Response 400 (err_json ''All fields are required''), w1)
      else
        (case next_fault w1 of
           (Some m, w2) \<Rightarrow> (Response 500 (err_json ''Error inserting student data''), w2)
         | (None, w2) \<Rightarrow>
             (Response 200
                (JObj [(''id'', JNum (int (auto_inc w2))), (''name'', jfield name),
                       (''achievement'', jfield achievement), (''photo'', jfield photoPath)]),
              insert_row [(''name'', name), (''achievement'', achievement), (''photo'', photoPath)] w2)))"

text \<open>
  \<^verbatim>\<open>fs.unlinkSync("." + photoPath)\<close> runs inside the callback of the first query and
  before the \<^verbatim>\<open>DELETE\<close>; when it throws, nothing catches the exception.
\<close>

definition delete_students_id :: "env \<Rightarrow> nat \<Rightarrow> world \<Rightarrow> outcome \<times> world" where
  "delete_students_id e i w0 =
     (case next_fault w0 of
        (Some m, w1) \<Rightarrow> (Response 404 (err_json ''Student not found''), w1)
      | (None, w1) \<Rightarrow>
          (case select_where_id i (rows w1) of
             [] \<Rightarrow> (Response 404 (err_json ''Student not found''), w1)
           | r # _ \<Rightarrow>
               let photoPath = col (snd r) ''photo'';
                   unlinked =
                     (case photoPath of
                        None \<Rightarrow> Inr (files w1)
                      | Some p \<Rightarrow> if p = [] then Inr (files w1)
                                  else unlink (resolve (cwd e) (''.'' @ p)) (files w1))
               in (case unlinked of
                     Inl thrown \<Rightarrow> (Crash ''unlinkSync'', w1)
                   | Inr fs \<Rightarrow>
                       (case next_fault (w1\<lparr>files := fs\<rparr>) of
                          (Some m, w2) \<Rightarrow> (Response 500 (err_json ''Error deleting student''), w2)
                        | (None, w2) \<Rightarrow>
                            (Response 200 (msg_json (check_mark @ '' Student deleted successfully'')),
                             w2\<lparr>rows := delete_where_id i (rows w2)\<rparr>)))))"

section \<open>The current banner: \<^verbatim>\<open>POST /api/banner/upload\<close>\<close>

definition post_api_banner_upload ::
  "env \<Rightarrow> nat \<Rightarrow> upfile option \<Rightarrow> world \<Rightarrow> outcome \<times> world" where
  "post_api_banner_upload e now file w0 =
     (case upload_single e now file w0 of
        (None, w1) \<Rightarrow> (Response 400 (err_json ''No file uploaded''), w1)
      | (Some filename, w1) \<Rightarrow>
          let imagePath = ''uploads/'' @ filename in
          (case next_fault w1 of
             (Some m, w2) \<Rightarrow> (Response 500 (err_json ''Failed to clear old banner''), w2)
           | (None, w2) \<Rightarrow>
               (case next_fault (w2\<lparr>rows := []\<rparr>) of
                  (Some m, w3) \<Rightarrow> (Response 500 (err_json ''Failed to save image''), w3)
                | (None, w3) \<Rightarrow>
                    (Response 200
                       (JObj [(''message'', JStr ''Banner uploaded successfully''),
                              (''imagePath'', JStr (''http://localhost:5000/'' @ imagePath))]),
                     insert_row [(''image_path'', Some imagePath)] w3))))"

text \<open>
  The function that line 886 registers for \<^verbatim>\<open>DELETE /api/banner/delete\<close> is never
  run: the path is matched by \<^verbatim>\<open>/api/banner/:id\<close>, registered at line 156, whose
  function answers every request.
\<close>

section \<open>Prices: \<^verbatim>\<open>POST /api/price\<close> and \<^verbatim>\<open>GET /api/price\<close>\<close>

definition price_fields :: "string list" where
  "price_fields = [''originalPrice'', ''discount'', ''duration'', ''finalPrice'', ''emiOption'']"

definition price_row :: "body \<Rightarrow> row" where
  "price_row req_body =
     [(''original_price'', map_of req_body ''originalPrice''),
      (''discount'', map_of req_body ''discount''),
      (''duration'', map_of req_body ''duration''),
      (''final_price'', map_of req_body ''finalPrice''),
      (''emi_option'', map_of req_body ''emiOption'')]"

definition post_api_price :: "body \<Rightarrow> world \<Rightarrow> outcome \<times> world" where
  "post_api_price req_body w0 =
     (if falsy (map_of req_body ''originalPrice'') \<or> falsy (map_of req_body ''discount'')
         \<or> falsy (map_of req_body ''duration'') \<or> falsy (map_of req_body ''finalPrice'')
         \<or> falsy (map_of req_body ''emiOption'')
      then (Response 400 (err_json ''All fields are required''), w0)
      else
        (case next_fault w0 of
           (Some m, w1) \<Rightarrow> (Response 500 (err_json ''Failed to save price data''), w1)
         | (None, w1) \<Rightarrow>
             (Response 200 (msg_json ''Price details updated successfully!''),
              insert_row (price_row req_body) w1)))"

definition get_api_price :: "world \<Rightarrow> outcome \<times> world" where
  "get_api_price w0 =
     (case next_fault w0 of
        (Some m, w1) \<Rightarrow> (Response 500 (err_json ''Failed to fetch price data''), w1)
      | (None, w1) \<Rightarrow>
          (case max_id_row (rows w1) of
             None \<Rightarrow> (Response 200 (msg_json ''No price data found''), w1)
           | Some r \<Rightarrow> (Response 200 (row_json r), w1)))"

section \<open>NEET details: \<^verbatim>\<open>POST /api/neet-details\<close>\<close>

text \<open>
  \<^verbatim>\<open>INSERT ... VALUES (1, ...) ON DUPLICATE KEY UPDATE\<close>: the row with key 1 is
  overwritten when there is one and inserted otherwise.
\<close>

definition neet_fields :: "string list" where
  "neet_fields = [''address'', ''timing'', ''contact'', ''courseDetails'', ''price'']"

definition neet_cols :: "body \<Rightarrow> (string \<times> field) list" where
  "neet_cols req_body = map (\<lambda>k. (k, map_of req_body k)) neet_fields"

definition upsert_id_1 :: "(string \<times> field) list \<Rightarrow> world \<Rightarrow> world" where
  "upsert_id_1 kvs w =
     (case select_where_id 1 (rows w) of
        [] \<Rightarrow> w\<lparr>rows := rows w @ [(1, kvs)], auto_inc := max (auto_inc w) 2\<rparr>
      | r # _ \<Rightarrow> w\<lparr>rows := update_where_id 1 (set_cols kvs) (rows w)\<rparr>)"

definition post_api_neet_details :: "body \<Rightarrow> world \<Rightarrow> outcome \<times> world" where
  "post_api_neet_details req_body w0 =
     (if falsy (map_of req_body ''address'') \<or> falsy (map_of req_body ''timing'')
         \<or> falsy (map_of req_body ''contact'') \<or> falsy (map_of req_body ''courseDetails'')
         \<or> falsy (map_of req_body ''price'')
      then (Response 400 (err_json ''All fields are required!''), w0)
      else
        (case next_fault w0 of
           (Some m, w1) \<Rightarrow> (Response 500 (err_json ''Failed to update details''), w1)
         | (None, w1) \<Rightarrow>
             (Response 200 (msg_json (check_mark @ '' NEET details updated successfully!'')),
              upsert_id_1 (neet_cols req_body) w1)))"

section \<open>Courses and testimonials: \<^verbatim>\<open>POST /courses\<close>, \<^verbatim>\<open>DELETE /courses/:id\<close>, \<^verbatim>\<open>DELETE /testimonials/:id\<close>\<close>

text \<open>
  \<^verbatim>\<open>res.status(500).json(err)\<close> sends the error object of the driver: its enumerable
  properties.
\<close>

definition err_obj :: "db_error \<Rightarrow> json" where
  "err_obj m = JObj (err_props m)"

definition post_courses :: "body \<Rightarrow> world \<Rightarrow> outcome \<times> world" where
  "post_courses req_body w0 =
     (let name = map_of req_body ''name'';
          description = map_of req_body ''description'' in
      case next_fault w0 of
        (Some m, w1) \<Rightarrow> (Response 500 (err_obj m), w1)
      | (None, w1) \<Rightarrow>
          (Response 201
             (JObj (props [(''id'', Some (JNum (int (auto_inc w1)))),
                           (''name'', body_prop name),
                           (''description'', body_prop description)])),
           insert_row [(''name'', name), (''description'', description)] w1))"

definition delete_courses_id :: "nat \<Rightarrow> world \<Rightarrow> outcome \<times> world" where
  "delete_courses_id i w0 =
     (case next_fault w0 of
        (Some m, w1) \<Rightarrow> (Response 500 (err_obj m), w1)
      | (None, w1) \<Rightarrow>
          (Response 200 (msg_json ''Course deleted''), w1\<lparr>rows := delete_where_id i (rows w1)\<rparr>))"

definition delete_testimonials_id :: "nat \<Rightarrow> world \<Rightarrow> outcome \<times> world" where
  "delete_testimonials_id i w0 =
     (case next_fault w0 of
        (Some m, w1) \<Rightarrow> (Response 500 (err_json (err_message m)), w1)
      | (None, w1) \<Rightarrow>
          (Response 200 (msg_json ''Testimonial deleted successfully''),
           w1\<lparr>rows := delete_where_id i (rows w1)\<rparr>))"

section \<open>Paging: \<^verbatim>\<open>GET /explorecourse\<close>\<close>

text \<open>
  A number of the program is a double.  The route only makes integers, so a number
  is \<^verbatim>\<open>NaN\<close>, an infinity, or an integer that a double holds.  \<open>round_double\<close> is the
  double nearest to an integer, ties to the even significand: the result of parsing
  and of every arithmetic operation.
\<close>

datatype jsnum = NaN | Num int | PosInf | NegInf

fun bitlen :: "nat \<Rightarrow> nat" where
  "bitlen n = (if n = 0 then 0 else Suc (bitlen (n div 2)))"

declare bitlen.simps [simp del]

definition round_double :: "int \<Rightarrow> jsnum" where
  "round_double n =
     (if \<bar>n\<bar> < 9007199254740992 then Num n
      else
        let a = nat \<bar>n\<bar>;
            e = bitlen a - 53;
            q = a div 2 ^ e;
            r = a mod 2 ^ e;
            h = 2 ^ (e - 1);
            q' = (if h < r \<or> (r = h \<and> odd q) then Suc q else q);
            m = q' * 2 ^ e
        in if 2 ^ 1024 \<le> m then (if 0 < n then PosInf else NegInf)
           else Num (if 0 < n then int m else - int m))"

definition js_sub1 :: "jsnum \<Rightarrow> jsnum" where
  "js_sub1 x = (case x of Num n \<Rightarrow> round_double (n - 1) | _ \<Rightarrow> x)"

definition js_neg :: "jsnum \<Rightarrow> jsnum" where
  "js_neg x = (case x of NaN \<Rightarrow> NaN | Num n \<Rightarrow> Num (- n) | PosInf \<Rightarrow> NegInf | NegInf \<Rightarrow> PosInf)"

fun js_mul :: "jsnum \<Rightarrow> jsnum \<Rightarrow> jsnum" where
  "js_mul (Num a) (Num b) = round_double (a * b)"
| "js_mul NaN y = NaN"
| "js_mul x NaN = NaN"
| "js_mul (Num a) y = (if a = 0 then NaN else if 0 < a then y else js_neg y)"
| "js_mul x (Num b) = (if b = 0 then NaN else if 0 < b then x else js_neg x)"
| "js_mul PosInf y = y"
| "js_mul NegInf y = js_neg y"

text \<open>\<^verbatim>\<open>JSON.stringify\<close> writes \<^verbatim>\<open>null\<close> for a number that is not finite.\<close>

definition jnum :: "jsnum \<Rightarrow> json" where
  "jnum x = (case x of Num n \<Rightarrow> JNum n | _ \<Rightarrow> JNull)"

text \<open>
  \<^verbatim>\<open>parseInt\<close>: leading white space, a sign, an optional \<^verbatim>\<open>0x\<close>, then the longest run
  of digits, read exactly and rounded to a double; no digit gives \<^verbatim>\<open>NaN\<close>.  A string
  is the bytes of its UTF-8 form, so the white space of the language is the list
  \<open>white_space\<close> of byte sequences: tab, the line terminators, space, U+00A0, U+1680,
  U+2000 to U+200A, U+2028, U+2029, U+202F, U+205F, U+3000 and U+FEFF.
\<close>

definition white_space :: "string list" where
  "white_space =
     [[CHR 0x09], [CHR 0x0A], [CHR 0x0B], [CHR 0x0C], [CHR 0x0D], [CHR 0x20],
      [CHR 0xC2, CHR 0xA0],
      [CHR 0xE1, CHR 0x9A, CHR 0x80],
      [CHR 0xE2, CHR 0x80, CHR 0x80], [CHR 0xE2, CHR 0x80, CHR 0x81],
      [CHR 0xE2, CHR 0x80, CHR 0x82], [CHR 0xE2, CHR 0x80, CHR 0x83],
      [CHR 0xE2, CHR 0x80, CHR 0x84], [CHR 0xE2, CHR 0x80, CHR 0x85],
      [CHR 0xE2, CHR 0x80, CHR 0x86], [CHR 0xE2, CHR 0x80, CHR 0x87],
      [CHR 0xE2, CHR 0x80, CHR 0x88], [CHR 0xE2, CHR 0x80, CHR 0x89],
      [CHR 0xE2, CHR 0x80, CHR 0x8A],
      [CHR 0xE2, CHR 0x80, CHR 0xA8], [CHR 0xE2, CHR 0x80, CHR 0xA9],
      [CHR 0xE2, CHR 0x80, CHR 0xAF],
      [CHR 0xE2, CHR 0x81, CHR 0x9F],
      [CHR 0xE3, CHR 0x80, CHR 0x80],
      [CHR 0xEF, CHR 0xBB, CHR 0xBF]]"

fun strip_prefix :: "string \<Rightarrow> string \<Rightarrow> string option" where
  "strip_prefix [] s = Some s"
| "strip_prefix (c # cs) [] = None"
| "strip_prefix (c # cs) (d # ds) = (if c = d then strip_prefix cs ds else None)"

fun strip_one :: "string list \<Rightarrow> string \<Rightarrow> string option" where
  "strip_one [] s = None"
| "strip_one (p # ps) s = (case strip_prefix p s of Some t \<Rightarrow> Some t | None \<Rightarrow> strip_one ps s)"

text \<open>Every step removes a byte at least, so the length of the string is fuel enough.\<close>

fun skip_space :: "nat \<Rightarrow> string \<Rightarrow> string" where
  "skip_space 0 s = s"
| "skip_space (Suc k) s = (case strip_one white_space s of None \<Rightarrow> s | Some t \<Rightarrow> skip_space k t)"

definition digit_val :: "char \<Rightarrow> nat option" where
  "digit_val c =
     map_of [(CHR ''0'', 0), (CHR ''1'', 1), (CHR ''2'', 2), (CHR ''3'', 3), (CHR ''4'', 4),
             (CHR ''5'', 5), (CHR ''6'', 6), (CHR ''7'', 7), (CHR ''8'', 8), (CHR ''9'', 9),
             (CHR ''a'', 10), (CHR ''b'', 11), (CHR ''c'', 12), (CHR ''d'', 13), (CHR ''e'', 14),
             (CHR ''f'', 15), (CHR ''A'', 10), (CHR ''B'', 11), (CHR ''C'', 12), (CHR ''D'', 13),
             (CHR ''E'', 14), (CHR ''F'', 15)] c"

fun read_digits :: "nat \<Rightarrow> string \<Rightarrow> nat option \<Rightarrow> nat option" where
  "read_digits radix [] acc = acc"
| "read_digits radix (c # cs) acc =
     (case digit_val c of
        None \<Rightarrow> acc
      | Some d \<Rightarrow>
          if d < radix
          then read_digits radix cs (Some ((case acc of None \<Rightarrow> 0 | Some a \<Rightarrow> a * radix) + d))
          else acc)"

definition strip_sign :: "string \<Rightarrow> bool \<times> string" where
  "strip_sign t =
     (case t of
        [] \<Rightarrow> (False, [])
      | c # cs \<Rightarrow> if c = CHR ''-'' then (True, cs)
                  else if c = CHR ''+'' then (False, cs) else (False, t))"

definition strip_radix :: "string \<Rightarrow> nat \<times> string" where
  "strip_radix u =
     (case u of
        c1 # c2 # cs \<Rightarrow>
          if c1 = CHR ''0'' \<and> (c2 = CHR ''x'' \<or> c2 = CHR ''X'') then (16, cs) else (10, u)
      | _ \<Rightarrow> (10, u))"

definition parseInt :: "field \<Rightarrow> jsnum" where
  "parseInt x =
     (case x of
        None \<Rightarrow> NaN
      | Some s \<Rightarrow>
          (case strip_sign (skip_space (length s) s) of (neg, u) \<Rightarrow>
           case strip_radix u of (radix, v) \<Rightarrow>
           case read_digits radix v None of
             None \<Rightarrow> NaN
           | Some n \<Rightarrow> round_double (if neg then - int n else int n)))"

text \<open>\<^verbatim>\<open>parseInt(x) || d\<close>: \<^verbatim>\<open>NaN\<close> and \<^verbatim>\<open>0\<close> are falsy.\<close>

definition or_default :: "jsnum \<Rightarrow> int \<Rightarrow> jsnum" where
  "or_default x d =
     (case x of NaN \<Rightarrow> Num d | Num v \<Rightarrow> if v = 0 then Num d else Num v | _ \<Rightarrow> x)"

text \<open>
  The driver writes a number into the statement as the language prints it, and the
  database takes as \<^verbatim>\<open>LIMIT\<close> and as \<^verbatim>\<open>OFFSET\<close> an unsigned integer literal of at
  most 64 bits: a negative number, a number from \<open>2^64\<close> on (from \<open>10^21\<close> on it is
  printed with an exponent), \<^verbatim>\<open>NaN\<close> and \<^verbatim>\<open>Infinity\<close> are refused as a syntax error.
  A number above \<open>2^53\<close> is printed with its shortest digits, which are not its
  value but, like it, stay below \<open>2^64\<close> when it does and exceed the number of rows
  a table can hold; \<open>sql_count\<close> keeps the value.
  What \<^verbatim>\<open>LIKE\<close> matches is the database's: the parameter \<open>like\<close>, from the pattern and
  the column.  With no \<^verbatim>\<open>ORDER BY\<close>, the rows come in the order of the table.
\<close>

definition sql_count :: "jsnum \<Rightarrow> nat option" where
  "sql_count x =
     (case x of
        Num n \<Rightarrow> if 0 \<le> n \<and> n < 18446744073709551616 then Some (nat n) else None
      | _ \<Rightarrow> None)"

definition er_parse_error :: string where
  "er_parse_error = ''You have an error in your SQL syntax''"

definition matching_rows ::
  "(string \<Rightarrow> field \<Rightarrow> bool) \<Rightarrow> field \<Rightarrow> (nat \<times> row) list \<Rightarrow> (nat \<times> row) list" where
  "matching_rows like search rs =
     (case search of
        None \<Rightarrow> rs
      | Some s \<Rightarrow>
          if s = [] then rs
          else filter (\<lambda>r. like (''%'' @ s @ ''%'') (col (snd r) ''name'')) rs)"

definition get_explorecourse :: "(string \<Rightarrow> field \<Rightarrow> bool) \<Rightarrow> body \<Rightarrow> world \<Rightarrow> outcome \<times> world" where
  "get_explorecourse like req_query w0 =
     (let page = or_default (parseInt (map_of req_query ''page'')) 1;
          limit = or_default (parseInt (map_of req_query ''limit'')) 10;
          offset = js_mul (js_sub1 page) limit;
          search = map_of req_query ''search'' in
      case next_fault w0 of
        (Some m, w1) \<Rightarrow> (Response 500 (err_json (err_message m)), w1)
      | (None, w1) \<Rightarrow>
          (case sql_count limit of
             None \<Rightarrow> (Response 500 (err_json er_parse_error), w1)
           | Some l \<Rightarrow>
               (case sql_count offset of
                  None \<Rightarrow> (Response 500 (err_json er_parse_error), w1)
                | Some off \<Rightarrow>
                    let results = take l (drop off (matching_rows like search (rows w1)))
                    in (Response 200
                          (JObj [(''page'', jnum page), (''limit'', jnum limit),
                                 (''totalCourses'', JNum (int (length results))),
                                 (''courses'', JArr (map row_json results))]),
                        w1))))"

section \<open>Updates with a file: \<^verbatim>\<open>PUT /api/students/:id\<close> and \<^verbatim>\<open>PUT /olympiad/update-course/:id\<close>\<close>

definition put_api_students_id ::
  "env \<Rightarrow> nat \<Rightarrow> nat \<Rightarrow> body \<Rightarrow> upfile option \<Rightarrow> world \<Rightarrow> outcome \<times> world" where
  "put_api_students_id e now i req_body file w0 =
     (case upload_single e now file w0 of (filename, w1) \<Rightarrow>
      let name = map_of req_body ''name'';
          rank = map_of req_body ''rank'';
          imageUrl = (case filename of
                        Some n \<Rightarrow> Some (''/uploads/'' @ n)
                      | None \<Rightarrow> map_of req_body ''image'') in
      case next_fault w1 of
        (Some m, w2) \<Rightarrow> (Response 500 (err_json ''Update failed''), w2)
      | (None, w2) \<Rightarrow>
          (Response 200 (msg_json ''Student updated successfully''),
           w2\<lparr>rows := update_where_id i
                         (set_cols [(''name'', name), (''rank'', rank), (''image'', imageUrl)])
                         (rows w2)\<rparr>))"

definition olympiad_cols :: "string list" where
  "olympiad_cols = [''name'', ''language'', ''grade'', ''start_date'', ''end_date'',
                    ''description'', ''price'', ''weeks'', ''classes'', ''tests'']"

definition put_olympiad_update_course_id ::
  "env \<Rightarrow> nat \<Rightarrow> nat \<Rightarrow> body \<Rightarrow> upfile option \<Rightarrow> world \<Rightarrow> outcome \<times> world" where
  "put_olympiad_update_course_id e now i req_body file w0 =
     (case upload_single e now file w0 of (filename, w1) \<Rightarrow>
      let image = map_option (\<lambda>n. ''/uploads/'' @ n) filename;
          params = map (\<lambda>k. (k, map_of req_body k)) olympiad_cols
                   @ (if falsy image then [] else [(''image'', image)]) in
      case next_fault w1 of
        (Some m, w2) \<Rightarrow> (Response 500 (err_json ''Database error''), w2)
      | (None, w2) \<Rightarrow>
          (Response 200 (msg_json ''Olympiad course updated successfully''),
           w2\<lparr>rows := update_where_id i (set_cols params) (rows w2)\<rparr>))"

section \<open>Blog banners: \<^verbatim>\<open>POST /api/blog/upload-banner\<close>\<close>

definition post_api_blog_upload_banner ::
  "env \<Rightarrow> nat \<Rightarrow> upfile option \<Rightarrow> world \<Rightarrow> outcome \<times> world" where
  "post_api_blog_upload_banner e now file w0 =
     (case upload_single e now file w0 of
        (None, w1) \<Rightarrow> (Response 400 (msg_json ''No file uploaded''), w1)
      | (Some filename, w1) \<Rightarrow>
          let imageUrl = ''http://localhost:'' @ port e @ ''/uploads/'' @ filename in
          (case next_fault w1 of
             (Some m, w2) \<Rightarrow>
               (Response 500 (JObj [(''message'', JStr ''Database error''), (''error'', err_obj m)]), w2)
           | (None, w2) \<Rightarrow>
               (Response 200
                  (JObj [(''message'', JStr ''Banner uploaded successfully''),
                         (''imageUrl'', JStr imageUrl)]),
                insert_row [(''imageUrl'', Some imageUrl)] w2)))"

section \<open>Credentials: \<^verbatim>\<open>POST /register\<close> and \<^verbatim>\<open>POST /login\<close>\<close>

text \<open>
  bcrypt is a library outside the repository.  Its key derivation is the parameter
  \<open>kdf\<close>, from a salt and a password to a digest; the salt that \<^verbatim>\<open>bcrypt.hash\<close> draws
  is an argument of the route.  A hash is the version and cost, the 22 characters of
  the salt, and the digest; \<^verbatim>\<open>bcrypt.compare\<close> reads the salt back from the hash and
  derives again.
\<close>

definition bcrypt_hash :: "(string \<Rightarrow> string \<Rightarrow> string) \<Rightarrow> string \<Rightarrow> string \<Rightarrow> string" where
  "bcrypt_hash kdf salt pw = ''$2b$10$'' @ salt @ kdf salt pw"

definition bcrypt_compare :: "(string \<Rightarrow> string \<Rightarrow> string) \<Rightarrow> string \<Rightarrow> string \<Rightarrow> bool" where
  "bcrypt_compare kdf pw h = (h = bcrypt_hash kdf (take 22 (drop 7 h)) pw)"

definition users_with_email :: "field \<Rightarrow> world \<Rightarrow> (nat \<times> row) list" where
  "users_with_email email w = filter (\<lambda>r. col (snd r) ''email'' = email) (rows w)"

definition post_register ::
  "(string \<Rightarrow> string \<Rightarrow> string) \<Rightarrow> string \<Rightarrow> body \<Rightarrow> world \<Rightarrow> outcome \<times> world" where
  "post_register kdf salt req_body w0 =
     (let fullName = map_of req_body ''fullName'';
          email = map_of req_body ''email'';
          password = map_of req_body ''password'' in
      if falsy fullName \<or> falsy email \<or> falsy password
      then (Response 400 (err_json ''All fields are required''), w0)
      else
        (case next_fault w0 of
           (Some m, w1) \<Rightarrow> (Response 500 (err_json (err_message m)), w1)
         | (None, w1) \<Rightarrow>
             (case users_with_email email w1 of
                r # _ \<Rightarrow> (Response 400 (err_json ''Email already in use''), w1)
              | [] \<Rightarrow>
                  let hashedPassword = map_option (bcrypt_hash kdf salt) password in
                  (case next_fault w1 of
                     (Some m, w2) \<Rightarrow> (Response 500 (err_json (err_message m)), w2)
                   | (None, w2) \<Rightarrow>
                       (Response 201 (msg_json ''User registered successfully''),
                        insert_row [(''fullName'', fullName), (''email'', email),
                                    (''password'', hashedPassword)] w2)))))"

text \<open>\<^verbatim>\<open>bcrypt.compare\<close> rejects when the stored hash is \<^verbatim>\<open>NULL\<close>, and nothing catches it.\<close>

definition post_login ::
  "(string \<Rightarrow> string \<Rightarrow> string) \<Rightarrow> body \<Rightarrow> world \<Rightarrow> outcome \<times> world" where
  "post_login kdf req_body w0 =
     (let email = map_of req_body ''email'';
          password = map_of req_body ''password'' in
      if falsy email \<or> falsy password
      then (Response 400 (err_json ''All fields are required''), w0)
      else
        (case next_fault w0 of
           (Some m, w1) \<Rightarrow> (Response 500 (err_json (err_message m)), w1)
         | (None, w1) \<Rightarrow>
             (case users_with_email email w1 of
                [] \<Rightarrow> (Response 400 (err_json ''Invalid email or password''), w1)
              | user # _ \<Rightarrow>
                  (case (password, col (snd user) ''password'') of
                     (Some pw, Some h) \<Rightarrow>
                       if bcrypt_compare kdf pw h
                       then (Response 200
                               (JObj [(''message'', JStr ''Login successful''),
                                      (''user'', row_json user)]), w1)
                       else (Response 400 (err_json ''Invalid email or password''), w1)
                   | _ \<Rightarrow> (Crash ''bcrypt.compare'', w1)))))"

section \<open>Reading requests and answers\<close>

text \<open>The fields of a body that a route requires are all there and not empty.\<close>

definition truthy_fields :: "body \<Rightarrow> string list \<Rightarrow> bool" where
  "truthy_fields b ks = list_all (\<lambda>k. \<not> falsy (map_of b k)) ks"

text \<open>The property \<open>k\<close> of a JSON object.\<close>

fun json_get :: "json \<Rightarrow> string \<Rightarrow> json option" where
  "json_get (JObj kvs) k = map_of kvs k"
| "json_get _ k = None"

section \<open>A deployment and some stored states\<close>

text \<open>
  The server is started in its own directory, so that \<^verbatim>\<open>uploads/\<close>, where the
  middleware writes, is the directory \<^verbatim>\<open>__dirname/uploads\<close> that line 23 creates and
  line 31 serves.
\<close>

definition app_env :: env where
  "app_env = \<lparr>dirname = [''srv'', ''app''], cwd = [''srv'', ''app''], port = ''5000''\<rparr>"

definition empty_world :: world where
  "empty_world = \<lparr>rows = [], auto_inc = 1, files = Map.empty, db_faults = []\<rparr>"

definition sale_png :: upfile where
  "sale_png = \<lparr>originalname = ''sale.png'', content = ''PNG''\<rparr>"

text \<open>The banners after \<^verbatim>\<open>POST /api/banner\<close> with text \<^verbatim>\<open>Sale\<close> and \<open>sale_png\<close>.\<close>

definition banner_saved :: world where
  "banner_saved =
     \<lparr>rows = [(1, [(''text'', Some ''Sale''), (''image_url'', Some ''/uploads/1700000000123.png'')])],
      auto_inc = 2,
      files = [[''srv'', ''app'', ''uploads'', ''1700000000123.png''] \<mapsto> File ''PNG''],
      db_faults = []\<rparr>"

text \<open>A student whose photo is no longer on disk.\<close>

definition student_saved :: world where
  "student_saved =
     \<lparr>rows = [(1, [(''name'', Some ''Asha''), (''achievement'', Some ''AIR 1''),
                   (''photo'', Some ''/uploads/1700000000123.png'')])],
      auto_inc = 2,
      files = Map.empty,
      db_faults = []\<rparr>"

text \<open>An olympiad student and two olympiad courses, with an image uploaded earlier.\<close>

definition student_with_image :: world where
  "student_with_image =
     \<lparr>rows = [(1, [(''name'', Some ''Ravi''), (''rank'', Some ''12''),
                   (''image'', Some ''/uploads/1600000000000.png'')])],
      auto_inc = 2,
      files = [[''srv'', ''app'', ''uploads'', ''1600000000000.png''] \<mapsto> File ''OLD''],
      db_faults = []\<rparr>"

definition course_with_image :: world where
  "course_with_image =
     \<lparr>rows = [(1, [(''name'', Some ''Maths''), (''image'', Some ''/uploads/1600000000000.png'')]),
              (2, [(''name'', Some ''Physics''), (''image'', None)])],
      auto_inc = 3,
      files = [[''srv'', ''app'', ''uploads'', ''1600000000000.png''] \<mapsto> File ''OLD''],
      db_faults = []\<rparr>"

text \<open>Two bodies for the price.\<close>

definition price_a :: body where
  "price_a = [(''originalPrice'', ''1000''), (''discount'', ''10''), (''duration'', ''6''),
              (''finalPrice'', ''900''), (''emiOption'', ''yes'')]"

definition price_b :: body where
  "price_b = [(''originalPrice'', ''2000''), (''discount'', ''50''), (''duration'', ''12''),
              (''finalPrice'', ''1000''), (''emiOption'', ''no'')]"

text \<open>
  Twenty-five courses, and a \<^verbatim>\<open>LIKE\<close> for the patterns \<^verbatim>\<open>%s%\<close> of the route under a
  binary collation: the column contains \<open>s\<close>.
\<close>

definition courses25 :: world where
  "courses25 =
     \<lparr>rows = map (\<lambda>n. (n, [(''name'', Some ''Course'')]))
               [1, 2, 3, 4, 5, 6, 7, 8, 9, 10, 11, 12, 13, 14, 15, 16, 17, 18, 19, 20,
                21, 22, 23, 24, 25],
      auto_inc = 26, files = Map.empty, db_faults = []\<rparr>"

definition like_infix :: "string \<Rightarrow> field \<Rightarrow> bool" where
  "like_infix pat v =
     (case v of
        None \<Rightarrow> False
      | Some s \<Rightarrow>
          list_ex (\<lambda>i. take (length pat - 2) (drop i s) = butlast (tl pat)) [0..<Suc (length s)])"

text \<open>A key derivation to run the credential routes with, a salt, and a user.\<close>

definition demo_kdf :: "string \<Rightarrow> string \<Rightarrow> string" where
  "demo_kdf salt pw = rev pw @ salt"

definition demo_salt :: string where
  "demo_salt = ''abcdefghijklmnopqrstuv''"

definition asha :: body where
  "asha = [(''fullName'', ''Asha Rao''), (''email'', ''asha@example.org''), (''password'', ''s3cret'')]"

definition asha_login :: body where
  "asha_login = [(''email'', ''asha@example.org''), (''password'', ''s3cret'')]"

definition ravi_login :: body where
  "ravi_login = [(''email'', ''ravi@example.org''), (''password'', ''s3cret'')]"

definition asha_typo :: body where
  "asha_typo = [(''email'', ''asha@example.org''), (''password'', ''secret'')]"

definition asha_registered :: world where
  "asha_registered =
     \<lparr>rows = [(1, [(''fullName'', Some ''Asha Rao''), (''email'', Some ''asha@example.org''),
                   (''password'', Some ''$2b$10$abcdefghijklmnopqrstuvterc3sabcdefghijklmnopqrstuv'')])],
      auto_inc = 2, files = Map.empty, db_faults = []\<rparr>"

section \<open>Evaluation and table lemmas\<close>

lemma show_nat_small: "n < 10 \<Longrightarrow> show_nat n = [''0123456789'' ! n]"
  by (subst show_nat.simps) simp

lemma show_nat_big:
  "10 \<le> n \<Longrightarrow> show_nat n = show_nat (n div 10) @ [''0123456789'' ! (n mod 10)]"
  by (subst show_nat.simps) simp

lemmas path_eval = resolve_def segments_def path_join_def path_extname_def path_basename_def
  upload_path_def multer_filename_def show_nat_small show_nat_big

lemmas db_eval = next_fault_def insert_row_def select_where_id_def delete_where_id_def
  update_where_id_def col_def err_json_def msg_json_def err_obj_def jfield_def falsy_def
  upload_single_def unlink_def body_prop_def Let_def

lemmas demo_eval = app_env_def empty_world_def sale_png_def banner_saved_def
  student_saved_def student_with_image_def course_with_image_def

lemmas parse_eval = parseInt_def strip_sign_def strip_radix_def digit_val_def white_space_def
  or_default_def round_double_def js_sub1_def sql_count_def jnum_def matching_rows_def

lemma col_Nil: "col [] k = None"
  by (simp add: col_def)

lemma col_Cons: "col (c # r) k = (if k = fst c then snd c else col r k)"
  by (cases c) (simp add: col_def)

lemma col_set_col: "col (set_col k v r) k' = (if k' = k then v else col r k')"
  by (induction r) (auto simp: col_def)

lemma nth_update_where_id:
  "n < length rs \<Longrightarrow>
     update_where_id i f rs ! n = (if fst (rs ! n) = i then (fst (rs ! n), f (snd (rs ! n))) else rs ! n)"
  by (simp add: update_where_id_def)

lemma length_update_where_id: "length (update_where_id i f rs) = length rs"
  by (simp add: update_where_id_def)

lemma db_faults_insert_row: "db_faults (insert_row r w) = db_faults w"
  by (simp add: insert_row_def)

lemma max_id_row_snoc:
  "\<forall>r\<in>set rs. fst r < n \<Longrightarrow> max_id_row (rs @ [(n, a)]) = Some (n, a)"
  by (induction rs) auto

lemma take_drop_nth:
  "m + n \<le> length xs \<Longrightarrow> take n (drop m xs) = map ((!) xs) [m..<m + n]"
  by (simp add: list_eq_iff_nth_eq)

lemma take_drop_rows:
  "length xs = 25 \<Longrightarrow> take 10 (drop 10 xs) = map ((!) xs) [10..<20]"
  using take_drop_nth [of 10 10 xs] by simp

lemma map_of_map_snd:
  "map_of (map (\<lambda>c. (fst c, f (snd c))) r) k = map_option f (map_of r k)"
  by (induction r) auto

lemma json_get_row_json:
  "k \<noteq> ''id'' \<Longrightarrow> col (snd u) k = Some h \<Longrightarrow> json_get (row_json u) k = Some (JStr h)"
  by (auto simp: row_json_def col_def map_of_map_snd jfield_def split: option.splits)

section \<open>Creating with a field or the file missing\<close>

lemma banner_rejects_incomplete:
  assumes "falsy (map_of req_body ''text'') \<or> file = None"
  shows "fst (post_api_banner e now req_body file w)
           = Response 400 (err_json ''Text and image are required.'')
       \<and> rows (snd (post_api_banner e now req_body file w)) = rows w
       \<and> auto_inc (snd (post_api_banner e now req_body file w)) = auto_inc w
       \<and> db_faults (snd (post_api_banner e now req_body file w)) = db_faults w
       \<and> files (snd (post_api_banner e now req_body file w))
           = (case file of
                None \<Rightarrow> files w
              | Some f \<Rightarrow> (files w)(upload_path e (multer_filename now f) \<mapsto> File (content f)))"
  using assms
  by (auto simp: post_api_banner_def upload_single_def falsy_def Let_def split: option.splits)

lemma students_rejects_incomplete:
  assumes "falsy (map_of req_body ''name'') \<or> falsy (map_of req_body ''achievement'') \<or> file = None"
  shows "fst (post_students e now req_body file w)
           = Response 400 (err_json ''All fields are required'')
       \<and> rows (snd (post_students e now req_body file w)) = rows w
       \<and> auto_inc (snd (post_students e now req_body file w)) = auto_inc w
       \<and> db_faults (snd (post_students e now req_body file w)) = db_faults w
       \<and> files (snd (post_students e now req_body file w))
           = (case file of
                None \<Rightarrow> files w
              | Some f \<Rightarrow> (files w)(upload_path e (multer_filename now f) \<mapsto> File (content f)))"
  using assms
  by (auto simp: post_students_def upload_single_def falsy_def Let_def split: option.splits)

text \<open>
  C1, as the code has it.  \<^verbatim>\<open>POST /api/banner\<close> with the text or the file missing
  answers 400 \<^verbatim>\<open>Text and image are required.\<close>, and \<^verbatim>\<open>POST /students\<close> with the
  name, the achievement or the photo missing answers 400 \<^verbatim>\<open>All fields are required\<close>.
  Both leave the table, its counter and the pending statements as they were: no
  statement is sent.  When no file came with the request the files are unchanged;
  when one did, the upload middleware has stored it before the route checked
  anything, and it stays on disk.
\<close>

theorem create_rejects_incomplete:
  "(falsy (map_of req_body ''text'') \<or> file = None \<longrightarrow>
      fst (post_api_banner e now req_body file w)
        = Response 400 (err_json ''Text and image are required.'')
    \<and> rows (snd (post_api_banner e now req_body file w)) = rows w
    \<and> auto_inc (snd (post_api_banner e now req_body file w)) = auto_inc w
    \<and> db_faults (snd (post_api_banner e now req_body file w)) = db_faults w
    \<and> files (snd (post_api_banner e now req_body file w))
        = (case file of
             None \<Rightarrow> files w
           | Some f \<Rightarrow> (files w)(upload_path e (multer_filename now f) \<mapsto> File (content f))))
   \<and> (falsy (map_of req_body ''name'') \<or> falsy (map_of req_body ''achievement'') \<or> file = None \<longrightarrow>
      fst (post_students e now req_body file w)
        = Response 400 (err_json ''All fields are required'')
    \<and> rows (snd (post_students e now req_body file w)) = rows w
    \<and> auto_inc (snd (post_students e now req_body file w)) = auto_inc w
    \<and> db_faults (snd (post_students e now req_body file w)) = db_faults w
    \<and> files (snd (post_students e now req_body file w))
        = (case file of
             None \<Rightarrow> files w
           | Some f \<Rightarrow> (files w)(upload_path e (multer_filename now f) \<mapsto> File (content f))))"
  using banner_rejects_incomplete [of req_body "file" e now w]
    students_rejects_incomplete [of req_body "file" e now w]
  by blast

text \<open>The theorem at a body with an empty text and no achievement, sent with a file.\<close>

theorem create_rejects_incomplete_witness:
  "(falsy (map_of [(''text'', []), (''name'', ''Asha'')] ''text'') \<or> Some sale_png = None)
   \<and> (falsy (map_of [(''text'', []), (''name'', ''Asha'')] ''name'')
        \<or> falsy (map_of [(''text'', []), (''name'', ''Asha'')] ''achievement'')
        \<or> Some sale_png = None)
   \<and> post_api_banner app_env 1700000000123 [(''text'', []), (''name'', ''Asha'')] (Some sale_png)
         empty_world
       = (Response 400 (JObj [(''error'', JStr ''Text and image are required.'')]),
          empty_world\<lparr>files := [[''srv'', ''app'', ''uploads'', ''1700000000123.png''] \<mapsto> File ''PNG'']\<rparr>)
   \<and> post_students app_env 1700000000123 [(''text'', []), (''name'', ''Asha'')] (Some sale_png)
         empty_world
       = (Response 400 (JObj [(''error'', JStr ''All fields are required'')]),
          empty_world\<lparr>files := [[''srv'', ''app'', ''uploads'', ''1700000000123.png''] \<mapsto> File ''PNG'']\<rparr>)"
  using create_rejects_incomplete [of "[(''text'', []), (''name'', ''Asha'')]" "Some sale_png"
      app_env 1700000000123 empty_world]
  by (simp add: post_api_banner_def post_students_def path_eval db_eval demo_eval)

text \<open>
  C1 as stated fails: a banner sent with an image and no text is refused, and the
  image is in the upload directory afterwards.
\<close>

theorem create_without_text_stores_file:
  "fst (post_api_banner app_env 1700000000123 [] (Some sale_png) empty_world)
     = Response 400 (JObj [(''error'', JStr ''Text and image are required.'')])
   \<and> files empty_world [''srv'', ''app'', ''uploads'', ''1700000000123.png''] = None
   \<and> files (snd (post_api_banner app_env 1700000000123 [] (Some sale_png) empty_world))
         [''srv'', ''app'', ''uploads'', ''1700000000123.png''] = Some (File ''PNG'')"
  by (simp add: post_api_banner_def path_eval db_eval demo_eval)

text \<open>
  \<^verbatim>\<open>POST /courses\<close>, which takes no file, checks nothing: a body without a name and a
  description is stored as a row of \<^verbatim>\<open>NULL\<close>s and answered with 201.
\<close>

lemma post_courses_checks_nothing:
  "post_courses [] empty_world
     = (Response 201 (JObj [(''id'', JNum 1)]),
        empty_world\<lparr>rows := [(1, [(''name'', None), (''description'', None)])], auto_inc := 2\<rparr>)"
  by (simp add: post_courses_def db_eval demo_eval)

section \<open>Deleting a row and its file\<close>

text \<open>
  C2 on the code.  A banner is created with \<^verbatim>\<open>POST /api/banner\<close> and deleted with
  \<^verbatim>\<open>DELETE /api/banner/1\<close>: the answer is 200 and the row is gone, but the route
  unlinks \<^verbatim>\<open>__dirname/public/uploads/...\<close>, where no upload is ever written, and the
  image stays in \<^verbatim>\<open>uploads/\<close>.  \<^verbatim>\<open>DELETE /students/1\<close> on a student whose photo is
  already absent throws out of \<^verbatim>\<open>unlinkSync\<close>: no answer, and the row is kept.
\<close>

theorem delete_api_banner_id_keeps_file:
  "post_api_banner app_env 1700000000123 [(''text'', ''Sale'')] (Some sale_png) empty_world
     = (Response 200
          (JObj [(''message'', JStr ''Banner saved successfully!''),
                 (''banner'', JObj [(''id'', JNum 1), (''text'', JStr ''Sale''),
                                    (''imageUrl'', JStr ''/uploads/1700000000123.png'')])]),
        banner_saved)
   \<and> delete_api_banner_id app_env 1 banner_saved
     = (Response 200 (JObj [(''message'', JStr ''Banner deleted successfully!'')]),
        banner_saved\<lparr>rows := []\<rparr>)
   \<and> files (snd (delete_api_banner_id app_env 1 banner_saved))
         [''srv'', ''app'', ''uploads'', ''1700000000123.png''] = Some (File ''PNG'')
   \<and> delete_students_id app_env 1 student_saved = (Crash ''unlinkSync'', student_saved)"
  by (simp add: post_api_banner_def delete_api_banner_id_def delete_students_id_def
      path_eval db_eval demo_eval)

section \<open>Deleting an id that has no row\<close>

text \<open>
  C3 on the code.  \<^verbatim>\<open>DELETE /courses/1\<close> and \<^verbatim>\<open>DELETE /testimonials/1\<close> on an empty
  table answer 200 with a success message; so does the second of two deletions of a
  course that was created.
\<close>

theorem delete_courses_id_unknown_id:
  "delete_courses_id 1 empty_world
     = (Response 200 (JObj [(''message'', JStr ''Course deleted'')]), empty_world)
   \<and> delete_testimonials_id 1 empty_world
     = (Response 200 (JObj [(''message'', JStr ''Testimonial deleted successfully'')]), empty_world)
   \<and> delete_courses_id 1
       (snd (delete_courses_id 1
          (snd (post_courses [(''name'', ''Physics''), (''description'', ''JEE'')] empty_world))))
     = (Response 200 (JObj [(''message'', JStr ''Course deleted'')]), empty_world\<lparr>auto_inc := 2\<rparr>)"
  by (simp add: delete_courses_id_def delete_testimonials_id_def post_courses_def db_eval demo_eval)

text \<open>The banners, whose route selects the row first, answer 404 for an id without a row.\<close>

lemma delete_api_banner_id_not_found:
  assumes "db_faults w = []" "select_where_id i (rows w) = []"
  shows "delete_api_banner_id e i w = (Response 404 (err_json ''Banner not found''), w)"
  using assms by (simp add: delete_api_banner_id_def next_fault_def)

section \<open>Paging\<close>

lemma bitlen_0: "bitlen 0 = 0"
  by (subst bitlen.simps) simp

lemma bitlen_pos: "0 < n \<Longrightarrow> bitlen n = Suc (bitlen (n div 2))"
  by (subst bitlen.simps) simp

lemma round_double_safe: "\<bar>n\<bar> < 9007199254740992 \<Longrightarrow> round_double n = Num n"
  by (simp add: round_double_def)

text \<open>
  Numbers at the edge of what a double holds: \<open>2^53 + 1\<close> is read as \<open>2^53\<close>, a
  no-break space before the digits is skipped, and a page of 23 digits gives an
  offset that the database refuses.
\<close>

lemma parseInt_examples:
  "parseInt (Some ''9007199254740993'') = Num 9007199254740992"
  "parseInt (Some [CHR 0xC2, CHR 0xA0, CHR ''5'']) = Num 5"
  "parseInt (Some ''  -17px'') = Num (- 17)"
  "parseInt (Some ''0x1f'') = Num 31"
  "parseInt (Some ''abc'') = NaN"
  "parseInt None = NaN"
  by (simp_all add: parse_eval bitlen_0 bitlen_pos Let_def)

lemma huge_page_is_refused:
  "fst (get_explorecourse like_infix [(''page'', ''99999999999999999999999'')] courses25)
     = Response 500 (JObj [(''error'', JStr ''You have an error in your SQL syntax'')])"
  by (simp add: get_explorecourse_def parse_eval bitlen_0 bitlen_pos er_parse_error_def
      courses25_def db_eval)

lemma paging_general:
  assumes "db_faults w = []"
    "parseInt (map_of q ''page'') \<in> {NaN, Num 0} \<and> pg = 1
       \<or> parseInt (map_of q ''page'') = Num pg \<and> 0 < pg"
    "parseInt (map_of q ''limit'') \<in> {NaN, Num 0} \<and> lm = 10
       \<or> parseInt (map_of q ''limit'') = Num lm \<and> 0 < lm"
    "pg * lm \<le> 9007199254740992"
  shows "fst (get_explorecourse like q w)
           = Response 200
               (JObj [(''page'', JNum pg), (''limit'', JNum lm),
                      (''totalCourses'',
                       JNum (int (length (take (nat lm) (drop (nat ((pg - 1) * lm))
                                    (matching_rows like (map_of q ''search'') (rows w))))))),
                      (''courses'',
                       JArr (map row_json (take (nat lm) (drop (nat ((pg - 1) * lm))
                                    (matching_rows like (map_of q ''search'') (rows w))))))])"
proof -
  have page: "or_default (parseInt (map_of q ''page'')) 1 = Num pg" and pg: "0 < pg"
    using assms(2) by (auto simp: or_default_def)
  have limit: "or_default (parseInt (map_of q ''limit'')) 10 = Num lm" and lm: "0 < lm"
    using assms(3) by (auto simp: or_default_def)
  have "pg * 1 \<le> pg * lm"
    using pg lm by (intro mult_left_mono) simp_all
  then have pg_le: "pg \<le> 9007199254740992"
    using assms(4) by simp
  have "1 * lm \<le> pg * lm"
    using pg lm by (intro mult_right_mono) simp_all
  then have lm_le: "lm \<le> 9007199254740992"
    using assms(4) by simp
  have "(pg - 1) * lm = pg * lm - lm"
    by (simp add: algebra_simps)
  then have off_lt: "(pg - 1) * lm < 9007199254740992"
    using assms(4) lm by simp
  have off_ge: "0 \<le> (pg - 1) * lm"
    using pg lm by simp
  have sub: "js_sub1 (Num pg) = Num (pg - 1)"
    using pg pg_le by (simp add: js_sub1_def round_double_safe)
  have mul: "round_double ((pg - 1) * lm) = Num ((pg - 1) * lm)"
    using off_lt off_ge by (simp add: round_double_safe)
  have count_lm: "sql_count (Num lm) = Some (nat lm)"
    using lm lm_le by (simp add: sql_count_def)
  have count_off: "sql_count (Num ((pg - 1) * lm)) = Some (nat ((pg - 1) * lm))"
    using off_lt off_ge by (simp add: sql_count_def)
  show ?thesis
    using assms(1)
    by (simp add: get_explorecourse_def page limit sub mul count_lm count_off next_fault_def
        jnum_def Let_def)
qed

lemma paging_page2:
  assumes "db_faults w = []"
    "parseInt (map_of q ''page'') = Num 2" "parseInt (map_of q ''limit'') = Num 10"
    "length (matching_rows like (map_of q ''search'') (rows w)) = 25"
  shows "fst (get_explorecourse like q w)
           = Response 200
               (JObj [(''page'', JNum 2), (''limit'', JNum 10),
                      (''totalCourses'', JNum 10),
                      (''courses'',
                       JArr (map row_json
                               (map ((!) (matching_rows like (map_of q ''search'') (rows w)))
                                  [10..<20])))])"
  using paging_general [of w q 2 10 like] assms
  by (simp add: take_drop_rows)

lemma paging_page99:
  assumes "db_faults w = []"
    "parseInt (map_of q ''page'') = Num 99" "parseInt (map_of q ''limit'') = Num 10"
    "length (matching_rows like (map_of q ''search'') (rows w)) = 25"
  shows "fst (get_explorecourse like q w)
           = Response 200
               (JObj [(''page'', JNum 99), (''limit'', JNum 10),
                      (''totalCourses'', JNum 0),
                      (''courses'', JArr [])])"
  using paging_general [of w q 99 10 like] assms
  by simp

lemma paging_count:
  assumes "fst (get_explorecourse like q w)
             = Response 200 (JObj [(''page'', p), (''limit'', l), (''totalCourses'', JNum n), (''courses'', JArr cs)])"
  shows "n = int (length cs)"
  using assms
  by (auto simp: get_explorecourse_def next_fault_def Let_def err_json_def
      split: list.splits option.splits if_splits)

text \<open>
  C4, as the code has it.  With no statement failing: a \<^verbatim>\<open>page\<close> or a \<^verbatim>\<open>limit\<close> that
  is absent, or in which \<^verbatim>\<open>parseInt\<close> finds no number, or that is zero, counts as
  page 1 and as size 10, a positive number counts as itself, and, as long as page
  times size is at most \<open>2^53\<close>, the answer is the rows of that page, in the order
  of the table, among the rows that the search selects (all of them without a
  search).  Over 25 such rows page 2 of size 10 is the rows 11 to 20, and page 99 is
  empty with status 200.  Whenever the route answers with a page, \<^verbatim>\<open>totalCourses\<close>
  is the number of rows in that page.
\<close>

theorem explorecourse_paging:
  assumes "db_faults w = []"
  shows "((parseInt (map_of q ''page'') \<in> {NaN, Num 0} \<and> pg = 1
               \<or> parseInt (map_of q ''page'') = Num pg \<and> 0 < pg) \<longrightarrow>
            (parseInt (map_of q ''limit'') \<in> {NaN, Num 0} \<and> lm = 10
               \<or> parseInt (map_of q ''limit'') = Num lm \<and> 0 < lm) \<longrightarrow>
            pg * lm \<le> 9007199254740992 \<longrightarrow>
            fst (get_explorecourse like q w)
              = Response 200
                  (JObj [(''page'', JNum pg), (''limit'', JNum lm),
                         (''totalCourses'',
                          JNum (int (length (take (nat lm) (drop (nat ((pg - 1) * lm))
                                       (matching_rows like (map_of q ''search'') (rows w))))))),
                         (''courses'',
                          JArr (map row_json (take (nat lm) (drop (nat ((pg - 1) * lm))
                                       (matching_rows like (map_of q ''search'') (rows w))))))]))
       \<and> (length (matching_rows like (map_of q ''search'') (rows w)) = 25 \<longrightarrow>
          parseInt (map_of q ''limit'') = Num 10 \<longrightarrow>
            (parseInt (map_of q ''page'') = Num 2 \<longrightarrow>
               fst (get_explorecourse like q w)
                 = Response 200
                     (JObj [(''page'', JNum 2), (''limit'', JNum 10),
                            (''totalCourses'', JNum 10),
                            (''courses'',
                             JArr (map row_json
                                     (map ((!) (matching_rows like (map_of q ''search'') (rows w)))
                                        [10..<20])))]))
          \<and> (parseInt (map_of q ''page'') = Num 99 \<longrightarrow>
               fst (get_explorecourse like q w)
                 = Response 200
                     (JObj [(''page'', JNum 99), (''limit'', JNum 10),
                            (''totalCourses'', JNum 0),
                            (''courses'', JArr [])])))
       \<and> (\<forall>p l n cs.
            fst (get_explorecourse like q w)
              = Response 200 (JObj [(''page'', p), (''limit'', l), (''totalCourses'', JNum n),
                                    (''courses'', JArr cs)])
            \<longrightarrow> n = int (length cs))"
proof (intro conjI allI impI)
  assume "parseInt (map_of q ''page'') \<in> {NaN, Num 0} \<and> pg = 1
       \<or> parseInt (map_of q ''page'') = Num pg \<and> 0 < pg"
    "parseInt (map_of q ''limit'') \<in> {NaN, Num 0} \<and> lm = 10
       \<or> parseInt (map_of q ''limit'') = Num lm \<and> 0 < lm"
    "pg * lm \<le> 9007199254740992"
  with assms show "fst (get_explorecourse like q w)
      = Response 200
          (JObj [(''page'', JNum pg), (''limit'', JNum lm),
                 (''totalCourses'',
                  JNum (int (length (take (nat lm) (drop (nat ((pg - 1) * lm))
                               (matching_rows like (map_of q ''search'') (rows w))))))),
                 (''courses'',
                  JArr (map row_json (take (nat lm) (drop (nat ((pg - 1) * lm))
                               (matching_rows like (map_of q ''search'') (rows w))))))])"
    by (rule paging_general)
next
  assume "length (matching_rows like (map_of q ''search'') (rows w)) = 25"
    "parseInt (map_of q ''limit'') = Num 10" "parseInt (map_of q ''page'') = Num 2"
  with assms show "fst (get_explorecourse like q w)
      = Response 200
          (JObj [(''page'', JNum 2), (''limit'', JNum 10),
                 (''totalCourses'', JNum 10),
                 (''courses'',
                  JArr (map row_json
                          (map ((!) (matching_rows like (map_of q ''search'') (rows w)))
                             [10..<20])))])"
    by (simp add: paging_page2)
next
  assume "length (matching_rows like (map_of q ''search'') (rows w)) = 25"
    "parseInt (map_of q ''limit'') = Num 10" "parseInt (map_of q ''page'') = Num 99"
  with assms show "fst (get_explorecourse like q w)
      = Response 200
          (JObj [(''page'', JNum 99), (''limit'', JNum 10),
                 (''totalCourses'', JNum 0),
                 (''courses'', JArr [])])"
    by (simp add: paging_page99)
next
  fix p l n cs
  assume "fst (get_explorecourse like q w)
      = Response 200 (JObj [(''page'', p), (''limit'', l), (''totalCourses'', JNum n),
                            (''courses'', JArr cs)])"
  then show "n = int (length cs)"
    by (rule paging_count)
qed

lemma like_our: "like_infix ''%our%'' (Some ''Course'')"
  by (simp add: like_infix_def)

lemma all_match: "matching_rows like_infix (Some ''our'') (rows courses25) = rows courses25"
  by (simp add: courses25_def matching_rows_def col_def like_our)

text \<open>
  The theorem over the twenty-five courses: a \<^verbatim>\<open>page\<close> that is not a number with a
  \<^verbatim>\<open>limit\<close> of 5, and pages 2 and 99 of size 10 under a search that every course
  matches.
\<close>

theorem explorecourse_paging_witness:
  "db_faults courses25 = []
   \<and> parseInt (map_of [(''page'', ''abc''), (''limit'', ''5'')] ''page'') \<in> {NaN, Num 0}
   \<and> parseInt (map_of [(''page'', ''abc''), (''limit'', ''5'')] ''limit'') = Num 5
   \<and> (1::int) * 5 \<le> 9007199254740992
   \<and> fst (get_explorecourse like_infix [(''page'', ''abc''), (''limit'', ''5'')] courses25)
       = Response 200
           (JObj [(''page'', JNum 1), (''limit'', JNum 5), (''totalCourses'', JNum 5),
                  (''courses'', JArr (map (\<lambda>n. row_json (n, [(''name'', Some ''Course'')]))
                                        [1, 2, 3, 4, 5]))])
   \<and> length (matching_rows like_infix (Some ''our'') (rows courses25)) = 25
   \<and> parseInt (map_of [(''page'', ''2''), (''limit'', ''10''), (''search'', ''our'')] ''page'') = Num 2
   \<and> parseInt (map_of [(''page'', ''2''), (''limit'', ''10''), (''search'', ''our'')] ''limit'') = Num 10
   \<and> fst (get_explorecourse like_infix [(''page'', ''2''), (''limit'', ''10''), (''search'', ''our'')]
            courses25)
       = Response 200
           (JObj [(''page'', JNum 2), (''limit'', JNum 10), (''totalCourses'', JNum 10),
                  (''courses'', JArr (map (\<lambda>n. row_json (n, [(''name'', Some ''Course'')]))
                                        [11, 12, 13, 14, 15, 16, 17, 18, 19, 20]))])
   \<and> parseInt (map_of [(''page'', ''99''), (''limit'', ''10''), (''search'', ''our'')] ''page'') = Num 99
   \<and> parseInt (map_of [(''page'', ''99''), (''limit'', ''10''), (''search'', ''our'')] ''limit'') = Num 10
   \<and> fst (get_explorecourse like_infix [(''page'', ''99''), (''limit'', ''10''), (''search'', ''our'')]
            courses25)
       = Response 200
           (JObj [(''page'', JNum 99), (''limit'', JNum 10), (''totalCourses'', JNum 0),
                  (''courses'', JArr [])])"
proof -
  let ?qa = "[(''page'', ''abc''), (''limit'', ''5'')]"
  let ?qb = "[(''page'', ''2''), (''limit'', ''10''), (''search'', ''our'')]"
  let ?qc = "[(''page'', ''99''), (''limit'', ''10''), (''search'', ''our'')]"
  have quiet: "db_faults courses25 = []"
    by (simp add: courses25_def)
  have pa: "parseInt (map_of ?qa ''page'') \<in> {NaN, Num 0}"
    and la: "parseInt (map_of ?qa ''limit'') = Num 5"
    and pb: "parseInt (map_of ?qb ''page'') = Num 2"
    and lb: "parseInt (map_of ?qb ''limit'') = Num 10"
    and pc: "parseInt (map_of ?qc ''page'') = Num 99"
    and lc: "parseInt (map_of ?qc ''limit'') = Num 10"
    by (simp_all add: parseInt_def strip_sign_def strip_radix_def digit_val_def white_space_def
        round_double_def)
  have small: "(1::int) * 5 \<le> 9007199254740992"
    by simp
  have sb: "map_of ?qb ''search'' = Some ''our''" and sc: "map_of ?qc ''search'' = Some ''our''"
    by simp_all
  have n25: "length (rows courses25) = 25"
    by (simp add: courses25_def)
  have m25: "length (matching_rows like_infix (Some ''our'') (rows courses25)) = 25"
    by (simp add: all_match n25)
  have a: "fst (get_explorecourse like_infix ?qa courses25)
       = Response 200
           (JObj [(''page'', JNum 1), (''limit'', JNum 5), (''totalCourses'', JNum 5),
                  (''courses'', JArr (map (\<lambda>n. row_json (n, [(''name'', Some ''Course'')]))
                                        [1, 2, 3, 4, 5]))])"
    using explorecourse_paging [OF quiet, where q = ?qa and like = like_infix and pg = 1 and lm = 5]
    by (simp add: courses25_def parse_eval)
  from explorecourse_paging [OF quiet, where q = ?qb and like = like_infix]
  have "fst (get_explorecourse like_infix ?qb courses25)
       = Response 200
           (JObj [(''page'', JNum 2), (''limit'', JNum 10), (''totalCourses'', JNum 10),
                  (''courses'', JArr (map row_json (map ((!) (rows courses25)) [10..<20])))])"
    unfolding sb all_match pb lb using n25 by simp
  then have b: "fst (get_explorecourse like_infix ?qb courses25)
       = Response 200
           (JObj [(''page'', JNum 2), (''limit'', JNum 10), (''totalCourses'', JNum 10),
                  (''courses'', JArr (map (\<lambda>n. row_json (n, [(''name'', Some ''Course'')]))
                                        [11, 12, 13, 14, 15, 16, 17, 18, 19, 20]))])"
    by (simp add: courses25_def)
  from explorecourse_paging [OF quiet, where q = ?qc and like = like_infix]
  have c: "fst (get_explorecourse like_infix ?qc courses25)
       = Response 200
           (JObj [(''page'', JNum 99), (''limit'', JNum 10), (''totalCourses'', JNum 0),
                  (''courses'', JArr [])])"
    unfolding sc all_match pc lc using n25 by simp
  show ?thesis
    by (intro conjI) (rule quiet pa la small a m25 pb lb b pc lc c)+
qed

text \<open>
  C4 as stated fails for a value that is a number but not a valid page: \<^verbatim>\<open>page=-1\<close> is
  not replaced by page 1; the offset is negative and the request ends in a 500.
\<close>

theorem negative_page_is_not_defaulted:
  "fst (get_explorecourse like_infix [(''page'', ''-1'')] courses25)
     = Response 500 (JObj [(''error'', JStr ''You have an error in your SQL syntax'')])
   \<and> fst (get_explorecourse like_infix [] courses25)
     \<noteq> fst (get_explorecourse like_infix [(''page'', ''-1'')] courses25)"
  by (simp add: get_explorecourse_def parse_eval er_parse_error_def courses25_def db_eval)

section \<open>Resources with one current row\<close>

text \<open>
  The two routes beside the price keep one row.  With no statement failing, two
  uploads of the current banner leave exactly one row, with the path of the second
  file; two posts of the NEET details, on a table that holds no row or only the row
  with key 1, leave exactly the row with key 1, and its five columns are those of
  the second body.
\<close>

lemma banner_upload_twice:
  assumes "db_faults w = []"
  shows "rows (snd (post_api_banner_upload e n2 (Some f2)
                 (snd (post_api_banner_upload e n1 (Some f1) w))))
           = [(Suc (auto_inc w), [(''image_path'', Some (''uploads/'' @ multer_filename n2 f2))])]"
  using assms
  by (simp add: post_api_banner_upload_def upload_single_def next_fault_def insert_row_def Let_def)

lemma neet_twice:
  assumes "db_faults w = []" "truthy_fields b1 neet_fields" "truthy_fields b2 neet_fields"
    "rows w = [] \<or> (\<exists>r. rows w = [(1, r)])"
  shows "\<exists>r. rows (snd (post_api_neet_details b2 (snd (post_api_neet_details b1 w)))) = [(1, r)]
             \<and> (\<forall>k\<in>set neet_fields. col r k = map_of b2 k)"
  using assms
  by (auto simp: post_api_neet_details_def truthy_fields_def neet_fields_def neet_cols_def
      upsert_id_1_def next_fault_def select_where_id_def update_where_id_def set_cols_def
      col_set_col col_Cons col_Nil)

text \<open>
  The price route only inserts: with no statement failing and the keys of the table
  below its counter, two posts add two rows, and \<^verbatim>\<open>GET /api/price\<close> answers with the
  second.
\<close>

lemma price_twice:
  assumes "db_faults w = []" "truthy_fields b1 price_fields" "truthy_fields b2 price_fields"
    "\<forall>r\<in>set (rows w). fst r < auto_inc w"
  shows "rows (snd (post_api_price b2 (snd (post_api_price b1 w))))
           = rows w @ [(auto_inc w, price_row b1), (Suc (auto_inc w), price_row b2)]
       \<and> fst (get_api_price (snd (post_api_price b2 (snd (post_api_price b1 w)))))
           = Response 200 (row_json (Suc (auto_inc w), price_row b2))"
proof -
  have first: "post_api_price b1 w
      = (Response 200 (msg_json ''Price details updated successfully!''),
         insert_row (price_row b1) w)"
    using assms(1,2)
    by (simp add: post_api_price_def truthy_fields_def price_fields_def next_fault_def)
  have second: "post_api_price b2 (insert_row (price_row b1) w)
      = (Response 200 (msg_json ''Price details updated successfully!''),
         insert_row (price_row b2) (insert_row (price_row b1) w))"
    using assms(1,3)
    by (simp add: post_api_price_def truthy_fields_def price_fields_def next_fault_def insert_row_def)
  have both: "rows (insert_row (price_row b2) (insert_row (price_row b1) w))
      = (rows w @ [(auto_inc w, price_row b1)]) @ [(Suc (auto_inc w), price_row b2)]"
    by (simp add: insert_row_def)
  have "\<forall>r\<in>set (rows w @ [(auto_inc w, price_row b1)]). fst r < Suc (auto_inc w)"
    using assms(4) by (auto simp: less_Suc_eq)
  then have "max_id_row ((rows w @ [(auto_inc w, price_row b1)]) @ [(Suc (auto_inc w), price_row b2)])
      = Some (Suc (auto_inc w), price_row b2)"
    by (rule max_id_row_snoc)
  then show ?thesis
    using assms(1)
    by (simp add: first second both get_api_price_def next_fault_def db_faults_insert_row)
qed

text \<open>
  C5 on the code.  Two posts of the price on an empty table are both answered 200
  \<^verbatim>\<open>Price details updated successfully!\<close>, and the table holds two rows afterwards,
  the first call's and the second call's.
\<close>

theorem price_twice_two_rows:
  "fst (post_api_price price_a empty_world)
     = Response 200 (JObj [(''message'', JStr ''Price details updated successfully!'')])
   \<and> fst (post_api_price price_b (snd (post_api_price price_a empty_world)))
     = Response 200 (JObj [(''message'', JStr ''Price details updated successfully!'')])
   \<and> rows (snd (post_api_price price_b (snd (post_api_price price_a empty_world))))
     = [(1, [(''original_price'', Some ''1000''), (''discount'', Some ''10''), (''duration'', Some ''6''),
             (''final_price'', Some ''900''), (''emi_option'', Some ''yes'')]),
        (2, [(''original_price'', Some ''2000''), (''discount'', Some ''50''), (''duration'', Some ''12''),
             (''final_price'', Some ''1000''), (''emi_option'', Some ''no'')])]"
  by (simp add: post_api_price_def price_row_def price_a_def price_b_def db_eval demo_eval)

section \<open>What is stored as the reference of a file\<close>

text \<open>
  C6 on the code.  \<^verbatim>\<open>POST /api/blog/upload-banner\<close> stores the reference with scheme,
  host and port in the column \<^verbatim>\<open>imageUrl\<close>.
\<close>

theorem post_api_blog_upload_banner_stores_host:
  "post_api_blog_upload_banner app_env 1700000000123 (Some sale_png) empty_world
     = (Response 200
          (JObj [(''message'', JStr ''Banner uploaded successfully''),
                 (''imageUrl'', JStr ''http://localhost:5000/uploads/1700000000123.png'')]),
        \<lparr>rows = [(1, [(''imageUrl'', Some ''http://localhost:5000/uploads/1700000000123.png'')])],
         auto_inc = 2,
         files = [[''srv'', ''app'', ''uploads'', ''1700000000123.png''] \<mapsto> File ''PNG''],
         db_faults = []\<rparr>)"
  by (simp add: post_api_blog_upload_banner_def path_eval db_eval demo_eval)

text \<open>The banners store the path below the upload prefix, with no host.\<close>

lemma post_api_banner_stores_relative:
  assumes "db_faults w = []" "map_of req_body ''text'' = Some t" "t \<noteq> []"
  shows "rows (snd (post_api_banner e now req_body (Some f) w))
           = rows w @ [(auto_inc w, [(''text'', Some t),
                                     (''image_url'', Some (''/uploads/'' @ multer_filename now f))])]"
  using assms
  by (simp add: post_api_banner_def upload_single_def falsy_def next_fault_def insert_row_def
      Let_def)

section \<open>Updating a row with a new file\<close>

text \<open>
  C7, as the code has it.  With no statement failing, \<^verbatim>\<open>PUT /api/students/:id\<close> and
  \<^verbatim>\<open>PUT /olympiad/update-course/:id\<close> with a new file answer 200, put the reference
  of the new file in the column \<^verbatim>\<open>image\<close> of the rows with that id and leave the
  other rows as they were.  The new file is added to the upload directory and no
  file is removed: every other path, the previously referenced file among them,
  holds what it held before.
\<close>

theorem update_with_file_keeps_old_file:
  assumes "db_faults w = []"
  shows "(case put_api_students_id e now i req_body (Some f) w of (out, w') \<Rightarrow>
            out = Response 200 (msg_json ''Student updated successfully'')
          \<and> length (rows w') = length (rows w)
          \<and> (\<forall>n<length (rows w).
                fst (rows w' ! n) = fst (rows w ! n)
              \<and> (if fst (rows w ! n) = i
                  then col (snd (rows w' ! n)) ''image'' = Some (''/uploads/'' @ multer_filename now f)
                  else rows w' ! n = rows w ! n))
          \<and> files w' = (files w)(upload_path e (multer_filename now f) \<mapsto> File (content f))
          \<and> (\<forall>p. p \<noteq> upload_path e (multer_filename now f) \<longrightarrow> files w' p = files w p))
       \<and> (case put_olympiad_update_course_id e now i req_body (Some f) w of (out, w') \<Rightarrow>
            out = Response 200 (msg_json ''Olympiad course updated successfully'')
          \<and> length (rows w') = length (rows w)
          \<and> (\<forall>n<length (rows w).
                fst (rows w' ! n) = fst (rows w ! n)
              \<and> (if fst (rows w ! n) = i
                  then col (snd (rows w' ! n)) ''image'' = Some (''/uploads/'' @ multer_filename now f)
                  else rows w' ! n = rows w ! n))
          \<and> files w' = (files w)(upload_path e (multer_filename now f) \<mapsto> File (content f))
          \<and> (\<forall>p. p \<noteq> upload_path e (multer_filename now f) \<longrightarrow> files w' p = files w p))"
  using assms
  by (simp add: put_api_students_id_def put_olympiad_update_course_id_def upload_single_def
      next_fault_def falsy_def olympiad_cols_def set_cols_def col_set_col
      nth_update_where_id length_update_where_id)

text \<open>The theorem at a student whose image was uploaded earlier.\<close>

theorem update_with_file_keeps_old_file_witness:
  "db_faults student_with_image = []
   \<and> put_api_students_id app_env 1700000000123 1 [(''name'', ''Ravi''), (''rank'', ''3'')]
       (Some sale_png) student_with_image
     = (Response 200 (JObj [(''message'', JStr ''Student updated successfully'')]),
        \<lparr>rows = [(1, [(''name'', Some ''Ravi''), (''rank'', Some ''3''),
                      (''image'', Some ''/uploads/1700000000123.png'')])],
         auto_inc = 2,
         files = [[''srv'', ''app'', ''uploads'', ''1600000000000.png''] \<mapsto> File ''OLD'',
                  [''srv'', ''app'', ''uploads'', ''1700000000123.png''] \<mapsto> File ''PNG''],
         db_faults = []\<rparr>)"
  using update_with_file_keeps_old_file [where w = student_with_image and e = app_env
      and now = 1700000000123 and i = 1 and req_body = "[(''name'', ''Ravi''), (''rank'', ''3'')]"
      and f = sale_png]
  by (simp add: put_api_students_id_def set_cols_def path_eval db_eval demo_eval)

text \<open>
  C7 as stated fails: the student referenced \<^verbatim>\<open>/uploads/1600000000000.png\<close>, the update
  with a new file succeeds, and the old file is on disk afterwards; the same for an
  olympiad course.
\<close>

theorem update_leaves_old_file_on_disk:
  "col (snd (hd (rows student_with_image))) ''image'' = Some ''/uploads/1600000000000.png''
   \<and> fst (put_api_students_id app_env 1700000000123 1 [(''name'', ''Ravi''), (''rank'', ''3'')]
            (Some sale_png) student_with_image)
     = Response 200 (JObj [(''message'', JStr ''Student updated successfully'')])
   \<and> files (snd (put_api_students_id app_env 1700000000123 1 [(''name'', ''Ravi''), (''rank'', ''3'')]
                   (Some sale_png) student_with_image))
         [''srv'', ''app'', ''uploads'', ''1600000000000.png''] = Some (File ''OLD'')
   \<and> files (snd (put_olympiad_update_course_id app_env 1700000000123 1 [(''name'', ''Maths'')]
                   (Some sale_png) course_with_image))
         [''srv'', ''app'', ''uploads'', ''1600000000000.png''] = Some (File ''OLD'')"
  by (simp add: put_api_students_id_def put_olympiad_update_course_id_def
      path_eval db_eval demo_eval)

section \<open>Registering and logging in\<close>

lemma bcrypt_compare_hash:
  "length salt = 22 \<Longrightarrow>
     bcrypt_compare kdf pw' (bcrypt_hash kdf salt pw) = (kdf salt pw' = kdf salt pw)"
  by (auto simp: bcrypt_compare_def bcrypt_hash_def)

lemma register_new:
  assumes "db_faults w = []"
    and "map_of b ''fullName'' = Some fn" "fn \<noteq> []"
    and "map_of b ''email'' = Some em" "em \<noteq> []"
    and "map_of b ''password'' = Some pw" "pw \<noteq> []"
    and "users_with_email (Some em) w = []"
  shows "post_register kdf salt b w
           = (Response 201 (msg_json ''User registered successfully''),
              w\<lparr>rows := rows w @ [(auto_inc w, [(''fullName'', Some fn), (''email'', Some em),
                                                 (''password'', Some (bcrypt_hash kdf salt pw))])],
                auto_inc := Suc (auto_inc w)\<rparr>)"
  using assms
  by (simp add: post_register_def falsy_def next_fault_def insert_row_def users_with_email_def)

lemma register_conflict:
  assumes "db_faults w = []"
    and "map_of b ''fullName'' = Some fn" "fn \<noteq> []"
    and "map_of b ''email'' = Some em" "em \<noteq> []"
    and "map_of b ''password'' = Some pw" "pw \<noteq> []"
    and "users_with_email (Some em) w \<noteq> []"
  shows "post_register kdf salt b w = (Response 400 (err_json ''Email already in use''), w)"
  using assms
  by (auto simp: post_register_def falsy_def next_fault_def users_with_email_def Let_def
      split: list.splits)

lemma login_unknown:
  assumes "db_faults w = []"
    and "map_of b ''email'' = Some em" "em \<noteq> []"
    and "map_of b ''password'' = Some pw" "pw \<noteq> []"
    and "users_with_email (Some em) w = []"
  shows "post_login kdf b w = (Response 400 (err_json ''Invalid email or password''), w)"
  using assms
  by (simp add: post_login_def falsy_def next_fault_def users_with_email_def)

lemma login_known:
  assumes "db_faults w = []"
    and "map_of b ''email'' = Some em" "em \<noteq> []"
    and "map_of b ''password'' = Some pw" "pw \<noteq> []"
    and "users_with_email (Some em) w = u # us" "col (snd u) ''password'' = Some h"
  shows "post_login kdf b w
           = (if bcrypt_compare kdf pw h
              then (Response 200 (JObj [(''message'', JStr ''Login successful''), (''user'', row_json u)]), w)
              else (Response 400 (err_json ''Invalid email or password''), w))"
  using assms
  by (simp add: post_login_def falsy_def next_fault_def users_with_email_def)

lemma login_success_iff:
  assumes "db_faults w = []"
    and "map_of b ''email'' = Some em" "em \<noteq> []"
    and "map_of b ''password'' = Some pw" "pw \<noteq> []"
  shows "(\<exists>j. fst (post_login kdf b w) = Response 200 j)
         \<longleftrightarrow> (\<exists>u us h. users_with_email (Some em) w = u # us \<and> col (snd u) ''password'' = Some h
                         \<and> bcrypt_compare kdf pw h)"
  using assms
  by (auto simp: post_login_def falsy_def next_fault_def err_json_def
      split: list.splits option.splits)

lemma login_after_register:
  assumes "db_faults w = []" "length salt = 22"
    and "map_of b ''fullName'' = Some fn" "fn \<noteq> []"
    and "map_of b ''email'' = Some em" "em \<noteq> []"
    and "map_of b ''password'' = Some pw" "pw \<noteq> []"
    and "users_with_email (Some em) w = []"
    and "map_of b' ''email'' = Some em" "map_of b' ''password'' = Some pw'" "pw' \<noteq> []"
  shows "fst (post_login kdf b' (snd (post_register kdf salt b w)))
           = (if kdf salt pw' = kdf salt pw
              then Response 200
                     (JObj [(''message'', JStr ''Login successful''),
                            (''user'', row_json (auto_inc w,
                               [(''fullName'', Some fn), (''email'', Some em),
                                (''password'', Some (bcrypt_hash kdf salt pw))]))])
              else Response 400 (err_json ''Invalid email or password''))"
proof -
  let ?u = "(auto_inc w, [(''fullName'', Some fn), (''email'', Some em),
                          (''password'', Some (bcrypt_hash kdf salt pw))])"
  let ?w = "w\<lparr>rows := rows w @ [?u], auto_inc := Suc (auto_inc w)\<rparr>"
  have registered: "post_register kdf salt b w
      = (Response 201 (msg_json ''User registered successfully''), ?w)"
    using assms(1,3-9) by (rule register_new)
  have found: "users_with_email (Some em) ?w = [?u]"
    using assms(9) by (simp add: users_with_email_def col_Cons col_Nil)
  have stored: "col (snd ?u) ''password'' = Some (bcrypt_hash kdf salt pw)"
    by (simp add: col_Cons)
  have quiet: "db_faults ?w = []"
    using assms(1) by simp
  have "post_login kdf b' ?w
      = (if bcrypt_compare kdf pw' (bcrypt_hash kdf salt pw)
         then (Response 200 (JObj [(''message'', JStr ''Login successful''), (''user'', row_json ?u)]), ?w)
         else (Response 400 (err_json ''Invalid email or password''), ?w))"
    using quiet assms(10) assms(6) assms(11) assms(12) found stored by (rule login_known)
  then show ?thesis
    using assms(2) by (simp add: registered bcrypt_compare_hash)
qed

lemma register_incomplete:
  assumes "falsy (map_of b ''fullName'') \<or> falsy (map_of b ''email'') \<or> falsy (map_of b ''password'')"
  shows "post_register kdf salt b w = (Response 400 (err_json ''All fields are required''), w)"
  using assms by (auto simp: post_register_def)

lemma login_incomplete:
  assumes "falsy (map_of b ''email'') \<or> falsy (map_of b ''password'')"
  shows "post_login kdf b w = (Response 400 (err_json ''All fields are required''), w)"
  using assms by (auto simp: post_login_def)

text \<open>
  C8.  No statement fails.  A registration whose name, email and password are not
  empty, on an email with no row, answers 201 and adds the row with the bcrypt hash
  of the password under the salt drawn; on an email that has a row it answers 400
  \<^verbatim>\<open>Email already in use\<close> and changes nothing.  A login without an email or a
  password answers 400 \<^verbatim>\<open>All fields are required\<close>.  A login with an email and a
  password, whatever else its body holds, answers 400 \<^verbatim>\<open>Invalid email or password\<close>
  when no row has the email and when the stored hash of the first such row does not
  match the password, and 200 when it matches: it succeeds exactly when a row has
  the email and its hash matches.  After a registration under a salt of the 22
  characters of a bcrypt salt, a login with that email succeeds exactly when its
  password derives to the stored digest.
\<close>

theorem credential_check:
  assumes "db_faults w = []"
  shows "(map_of b ''fullName'' = Some fn \<longrightarrow> fn \<noteq> [] \<longrightarrow>
          map_of b ''email'' = Some em \<longrightarrow> em \<noteq> [] \<longrightarrow>
          map_of b ''password'' = Some pw \<longrightarrow> pw \<noteq> [] \<longrightarrow>
            (users_with_email (Some em) w = [] \<longrightarrow>
               post_register kdf salt b w
                 = (Response 201 (msg_json ''User registered successfully''),
                    w\<lparr>rows := rows w @ [(auto_inc w, [(''fullName'', Some fn), (''email'', Some em),
                                                       (''password'', Some (bcrypt_hash kdf salt pw))])],
                      auto_inc := Suc (auto_inc w)\<rparr>))
          \<and> (users_with_email (Some em) w \<noteq> [] \<longrightarrow>
               post_register kdf salt b w = (Response 400 (err_json ''Email already in use''), w))
          \<and> (users_with_email (Some em) w = [] \<longrightarrow> length salt = 22 \<longrightarrow>
              map_of ab ''email'' = Some em \<longrightarrow> map_of ab ''password'' = Some apw \<longrightarrow> apw \<noteq> [] \<longrightarrow>
               fst (post_login kdf ab (snd (post_register kdf salt b w)))
                 = (if kdf salt apw = kdf salt pw
                    then Response 200
                           (JObj [(''message'', JStr ''Login successful''),
                                  (''user'', row_json (auto_inc w,
                                     [(''fullName'', Some fn), (''email'', Some em),
                                      (''password'', Some (bcrypt_hash kdf salt pw))]))])
                    else Response 400 (err_json ''Invalid email or password''))))
       \<and> (falsy (map_of lb ''email'') \<or> falsy (map_of lb ''password'') \<longrightarrow>
            post_login kdf lb w = (Response 400 (err_json ''All fields are required''), w))
       \<and> (map_of lb ''email'' = Some lem \<longrightarrow> lem \<noteq> [] \<longrightarrow>
          map_of lb ''password'' = Some lpw \<longrightarrow> lpw \<noteq> [] \<longrightarrow>
            (users_with_email (Some lem) w = [] \<longrightarrow>
               post_login kdf lb w = (Response 400 (err_json ''Invalid email or password''), w))
          \<and> (\<forall>u us h. users_with_email (Some lem) w = u # us \<longrightarrow>
                        col (snd u) ''password'' = Some h \<longrightarrow>
               post_login kdf lb w
                 = (if bcrypt_compare kdf lpw h
                    then (Response 200 (JObj [(''message'', JStr ''Login successful''),
                                              (''user'', row_json u)]), w)
                    else (Response 400 (err_json ''Invalid email or password''), w)))
          \<and> ((\<exists>j. fst (post_login kdf lb w) = Response 200 j)
               \<longleftrightarrow> (\<exists>u us h. users_with_email (Some lem) w = u # us
                               \<and> col (snd u) ''password'' = Some h \<and> bcrypt_compare kdf lpw h)))"
proof (intro conjI impI allI)
  assume "map_of b ''fullName'' = Some fn" "fn \<noteq> []" "map_of b ''email'' = Some em" "em \<noteq> []"
    "map_of b ''password'' = Some pw" "pw \<noteq> []" "users_with_email (Some em) w = []"
  with assms show "post_register kdf salt b w
      = (Response 201 (msg_json ''User registered successfully''),
         w\<lparr>rows := rows w @ [(auto_inc w, [(''fullName'', Some fn), (''email'', Some em),
                                            (''password'', Some (bcrypt_hash kdf salt pw))])],
           auto_inc := Suc (auto_inc w)\<rparr>)"
    by (rule register_new)
next
  assume "map_of b ''fullName'' = Some fn" "fn \<noteq> []" "map_of b ''email'' = Some em" "em \<noteq> []"
    "map_of b ''password'' = Some pw" "pw \<noteq> []" "users_with_email (Some em) w \<noteq> []"
  with assms show "post_register kdf salt b w = (Response 400 (err_json ''Email already in use''), w)"
    by (rule register_conflict)
next
  assume "map_of b ''fullName'' = Some fn" "fn \<noteq> []" "map_of b ''email'' = Some em" "em \<noteq> []"
    "map_of b ''password'' = Some pw" "pw \<noteq> []" "users_with_email (Some em) w = []"
    "length salt = 22" "map_of ab ''email'' = Some em" "map_of ab ''password'' = Some apw" "apw \<noteq> []"
  with assms show "fst (post_login kdf ab (snd (post_register kdf salt b w)))
      = (if kdf salt apw = kdf salt pw
         then Response 200
                (JObj [(''message'', JStr ''Login successful''),
                       (''user'', row_json (auto_inc w,
                          [(''fullName'', Some fn), (''email'', Some em),
                           (''password'', Some (bcrypt_hash kdf salt pw))]))])
         else Response 400 (err_json ''Invalid email or password''))"
    by (simp add: login_after_register)
next
  assume "falsy (map_of lb ''email'') \<or> falsy (map_of lb ''password'')"
  then show "post_login kdf lb w = (Response 400 (err_json ''All fields are required''), w)"
    by (rule login_incomplete)
next
  assume "map_of lb ''email'' = Some lem" "lem \<noteq> []" "map_of lb ''password'' = Some lpw" "lpw \<noteq> []"
    "users_with_email (Some lem) w = []"
  with assms show "post_login kdf lb w = (Response 400 (err_json ''Invalid email or password''), w)"
    by (rule login_unknown)
next
  fix u us h
  assume "map_of lb ''email'' = Some lem" "lem \<noteq> []" "map_of lb ''password'' = Some lpw" "lpw \<noteq> []"
    "users_with_email (Some lem) w = u # us" "col (snd u) ''password'' = Some h"
  with assms show "post_login kdf lb w
      = (if bcrypt_compare kdf lpw h
         then (Response 200 (JObj [(''message'', JStr ''Login successful''), (''user'', row_json u)]), w)
         else (Response 400 (err_json ''Invalid email or password''), w))"
    by (rule login_known)
next
  assume "map_of lb ''email'' = Some lem" "lem \<noteq> []" "map_of lb ''password'' = Some lpw" "lpw \<noteq> []"
  with assms show "(\<exists>j. fst (post_login kdf lb w) = Response 200 j)
         \<longleftrightarrow> (\<exists>u us h. users_with_email (Some lem) w = u # us
                         \<and> col (snd u) ''password'' = Some h \<and> bcrypt_compare kdf lpw h)"
    by (rule login_success_iff)
qed

text \<open>
  The theorem run with \<open>demo_kdf\<close>: a first registration and the logins after it, and
  on the table that holds the user the logins of bodies with an email and a password
  only: the right password, a wrong one, an unknown email, and no password.
\<close>

theorem credential_check_witness:
  "db_faults empty_world = [] \<and> db_faults asha_registered = [] \<and> length demo_salt = 22
   \<and> map_of asha ''fullName'' = Some ''Asha Rao''
   \<and> map_of asha ''email'' = Some ''asha@example.org''
   \<and> map_of asha ''password'' = Some ''s3cret''
   \<and> users_with_email (Some ''asha@example.org'') empty_world = []
   \<and> post_register demo_kdf demo_salt asha empty_world
       = (Response 201 (JObj [(''message'', JStr ''User registered successfully'')]), asha_registered)
   \<and> fst (post_login demo_kdf asha_login (snd (post_register demo_kdf demo_salt asha empty_world)))
       = Response 200
           (JObj [(''message'', JStr ''Login successful''),
                  (''user'', JObj [(''id'', JNum 1), (''fullName'', JStr ''Asha Rao''),
                                   (''email'', JStr ''asha@example.org''),
                                   (''password'',
                                    JStr ''$2b$10$abcdefghijklmnopqrstuvterc3sabcdefghijklmnopqrstuv'')])])
   \<and> fst (post_login demo_kdf asha_typo (snd (post_register demo_kdf demo_salt asha empty_world)))
       = Response 400 (JObj [(''error'', JStr ''Invalid email or password'')])
   \<and> users_with_email (Some ''asha@example.org'') asha_registered = rows asha_registered
   \<and> post_register demo_kdf demo_salt asha asha_registered
       = (Response 400 (JObj [(''error'', JStr ''Email already in use'')]), asha_registered)
   \<and> fst (post_login demo_kdf asha_login asha_registered)
       = Response 200
           (JObj [(''message'', JStr ''Login successful''),
                  (''user'', JObj [(''id'', JNum 1), (''fullName'', JStr ''Asha Rao''),
                                   (''email'', JStr ''asha@example.org''),
                                   (''password'',
                                    JStr ''$2b$10$abcdefghijklmnopqrstuvterc3sabcdefghijklmnopqrstuv'')])])
   \<and> post_login demo_kdf asha_typo asha_registered
       = (Response 400 (JObj [(''error'', JStr ''Invalid email or password'')]), asha_registered)
   \<and> users_with_email (Some ''ravi@example.org'') asha_registered = []
   \<and> post_login demo_kdf ravi_login asha_registered
       = (Response 400 (JObj [(''error'', JStr ''Invalid email or password'')]), asha_registered)
   \<and> falsy (map_of [(''email'', ''asha@example.org'')] ''password'')
   \<and> post_login demo_kdf [(''email'', ''asha@example.org'')] asha_registered
       = (Response 400 (JObj [(''error'', JStr ''All fields are required'')]), asha_registered)"
  using credential_check [where w = empty_world and salt = demo_salt and b = asha
      and fn = "''Asha Rao''" and em = "''asha@example.org''" and pw = "''s3cret''"
      and kdf = demo_kdf and ab = asha_login and apw = "''s3cret''"]
    credential_check [where w = asha_registered and salt = demo_salt and b = asha
      and fn = "''Asha Rao''" and em = "''asha@example.org''" and pw = "''s3cret''"
      and kdf = demo_kdf and lb = asha_login and lem = "''asha@example.org''" and lpw = "''s3cret''"]
    credential_check [where w = asha_registered and kdf = demo_kdf
      and lb = ravi_login and lem = "''ravi@example.org''" and lpw = "''s3cret''"]
    credential_check [where w = asha_registered and kdf = demo_kdf
      and lb = "[(''email'', ''asha@example.org'')]"]
  by (simp add: post_register_def post_login_def users_with_email_def bcrypt_hash_def
      bcrypt_compare_def demo_kdf_def demo_salt_def asha_def asha_login_def asha_typo_def
      ravi_login_def asha_registered_def row_json_def db_eval demo_eval)

text \<open>
  On a table that holds the user, a second registration is refused and leaves the
  table as it is.
\<close>

lemma register_twice_refused:
  "post_register demo_kdf demo_salt asha asha_registered
     = (Response 400 (JObj [(''error'', JStr ''Email already in use'')]), asha_registered)"
  by (simp add: post_register_def users_with_email_def asha_def asha_registered_def db_eval)

section \<open>What a successful login answers\<close>

text \<open>
  C9.  Whenever \<^verbatim>\<open>POST /login\<close> answers 200, the body is the message and, as
  \<^verbatim>\<open>user\<close>, the whole of a stored row that has the email of the request; the
  property \<^verbatim>\<open>password\<close> of that object is the hash stored in the row.
\<close>

theorem login_answers_with_stored_row:
  assumes "fst (post_login kdf b w) = Response 200 j"
  shows "\<exists>u h. u \<in> set (rows w)
             \<and> col (snd u) ''email'' = map_of b ''email''
             \<and> col (snd u) ''password'' = Some h
             \<and> j = JObj [(''message'', JStr ''Login successful''), (''user'', row_json u)]
             \<and> json_get j ''user'' = Some (row_json u)
             \<and> json_get (row_json u) ''password'' = Some (JStr h)"
proof -
  from assms obtain u us h where
    found: "users_with_email (map_of b ''email'') (snd (next_fault w)) = u # us"
    and h: "col (snd u) ''password'' = Some h"
    and j: "j = JObj [(''message'', JStr ''Login successful''), (''user'', row_json u)]"
    by (auto simp: post_login_def Let_def err_json_def
        split: if_splits prod.splits option.splits list.splits)
  have "rows (snd (next_fault w)) = rows w"
    by (simp add: next_fault_def split: list.splits)
  with found have "u \<in> set (filter (\<lambda>r. col (snd r) ''email'' = map_of b ''email'') (rows w))"
    by (simp add: users_with_email_def)
  then have "u \<in> set (rows w)" and "col (snd u) ''email'' = map_of b ''email''"
    by auto
  moreover have "json_get (row_json u) ''password'' = Some (JStr h)"
    using h by (simp add: json_get_row_json)
  ultimately show ?thesis
    using h j by (intro exI [of _ u] exI [of _ h]) simp
qed

text \<open>The theorem at the login of the registered user.\<close>

theorem login_answers_with_stored_row_witness:
  "fst (post_login demo_kdf asha asha_registered)
     = Response 200
         (JObj [(''message'', JStr ''Login successful''),
                (''user'', JObj [(''id'', JNum 1), (''fullName'', JStr ''Asha Rao''),
                                 (''email'', JStr ''asha@example.org''),
                                 (''password'',
                                  JStr ''$2b$10$abcdefghijklmnopqrstuvterc3sabcdefghijklmnopqrstuv'')])])
   \<and> (\<exists>u h. u \<in> set (rows asha_registered)
          \<and> col (snd u) ''password'' = Some h
          \<and> json_get (row_json u) ''password'' = Some (JStr h)
          \<and> json_get (JObj [(''message'', JStr ''Login successful''), (''user'', row_json u)]) ''user''
              = Some (row_json u))"
proof -
  have ok: "fst (post_login demo_kdf asha asha_registered)
     = Response 200
         (JObj [(''message'', JStr ''Login successful''),
                (''user'', JObj [(''id'', JNum 1), (''fullName'', JStr ''Asha Rao''),
                                 (''email'', JStr ''asha@example.org''),
                                 (''password'',
                                  JStr ''$2b$10$abcdefghijklmnopqrstuvterc3sabcdefghijklmnopqrstuv'')])])"
    by (simp add: post_login_def users_with_email_def bcrypt_hash_def bcrypt_compare_def
        demo_kdf_def asha_def asha_registered_def row_json_def db_eval)
  from login_answers_with_stored_row [OF ok] ok show ?thesis
    by auto
qed

section \<open>Updating an olympiad course without a file\<close>

text \<open>
  C10.  With no statement failing, \<^verbatim>\<open>PUT /olympiad/update-course/:id\<close> without a file
  answers 200 and leaves the files alone; in every row the column \<^verbatim>\<open>image\<close> is what
  it was; in the rows with that id each of the ten listed columns is the value of the
  request (\<^verbatim>\<open>NULL\<close> for a field the request does not have), and the other rows are
  unchanged.
\<close>

theorem update_without_file_keeps_image:
  assumes "db_faults w = []"
  shows "(case put_olympiad_update_course_id e now i req_body None w of (out, w') \<Rightarrow>
            out = Response 200 (msg_json ''Olympiad course updated successfully'')
          \<and> files w' = files w
          \<and> length (rows w') = length (rows w)
          \<and> (\<forall>n<length (rows w).
                fst (rows w' ! n) = fst (rows w ! n)
              \<and> col (snd (rows w' ! n)) ''image'' = col (snd (rows w ! n)) ''image''
              \<and> (if fst (rows w ! n) = i
                  then (\<forall>k\<in>set olympiad_cols. col (snd (rows w' ! n)) k = map_of req_body k)
                  else rows w' ! n = rows w ! n)))"
  using assms
  by (simp add: put_olympiad_update_course_id_def upload_single_def
      next_fault_def falsy_def olympiad_cols_def set_cols_def col_set_col
      nth_update_where_id length_update_where_id)

text \<open>The theorem at a course with an image, updated with a name and a price.\<close>

theorem update_without_file_keeps_image_witness:
  "db_faults course_with_image = []
   \<and> put_olympiad_update_course_id app_env 1700000000123 1
       [(''name'', ''Algebra''), (''price'', ''900'')] None course_with_image
     = (Response 200 (JObj [(''message'', JStr ''Olympiad course updated successfully'')]),
        course_with_image
        \<lparr>rows := [(1, [(''name'', Some ''Algebra''), (''image'', Some ''/uploads/1600000000000.png''),
                       (''language'', None), (''grade'', None), (''start_date'', None),
                       (''end_date'', None), (''description'', None), (''price'', Some ''900''),
                       (''weeks'', None), (''classes'', None), (''tests'', None)]),
                  (2, [(''name'', Some ''Physics''), (''image'', None)])]\<rparr>)"
  using update_without_file_keeps_image [where w = course_with_image and e = app_env
      and now = 1700000000123 and i = 1 and req_body = "[(''name'', ''Algebra''), (''price'', ''900'')]"]
  by (simp add: put_olympiad_update_course_id_def set_cols_def olympiad_cols_def
      path_eval db_eval demo_eval)

end
